theory Spec2Isabelle
  imports Complex_Main "HOL-Library.AList" "HOL-Library.Sublist"
begin

section \<open>Values, exceptions and HTTP traffic\<close>

text \<open>
  The module \<open>daemon_lib.py\<close> talks to a local daemon over HTTP, keeps a few
  process-wide globals in \<open>global_vars\<close> and starts the daemon as a child process.
  Everything outside the module (the network, the operating system, the Blender
  preferences) is a field of the record \<open>host\<close>; every global the module reads or writes,
  together with the traces of its observable effects, is a field of the record \<open>state\<close>.
\<close>

type_synonym port = string
  \<comment> \<open>\<open>get_port() -> str\<close>, \<open>reorder_ports(port: str)\<close>: a port is the text put into the URL
      and onto the daemon's command line.\<close>

datatype json =
    JNone
  | JBool bool
  | JInt int
  | JStr string
  | JList "json list"
  | JDict "(string \<times> json) list"

type_synonym dict = "(string \<times> json) list"
  \<comment> \<open>A Python dict with string keys, in insertion order.\<close>

definition dict_set :: "dict \<Rightarrow> string \<Rightarrow> json \<Rightarrow> dict" where
  \<comment> \<open>\<open>d[k] = v\<close>: an existing key keeps its place, a new key goes last.\<close>
  "dict_set d k v = AList.update k v d"

definition dict_get :: "dict \<Rightarrow> string \<Rightarrow> json option" where
  "dict_get d k = map_of d k"

text \<open>
  Exceptions are values. \<open>exn\<close> stands for the instances of Python's \<open>Exception\<close>; the
  kind gives the place in the class hierarchy that the \<open>except\<close> clauses of the module
  test, \<open>type_name\<close> is the qualified name of the concrete class and \<open>message\<close> is
  \<open>str(e)\<close>.
\<close>

datatype exn_kind =
    ConnectionError   \<comment> \<open>\<open>requests.exceptions.ConnectionError\<close> and its subclasses\<close>
  | RequestException  \<comment> \<open>any other \<open>requests\<close> exception (read timeout, invalid JSON, ...)\<close>
  | PermissionError
  | OSError "int option"  \<comment> \<open>any other \<open>OSError\<close>, with its \<open>winerror\<close> attribute\<close>
  | IndexError
  | ValueError
  | KeyError
  | TypeError
  | AttributeError
  | OtherException

datatype exn = Exn (kind: exn_kind) (type_name: string) (message: string)

fun is_ConnectionError :: "exn \<Rightarrow> bool" where
  "is_ConnectionError (Exn k _ _) = (k = ConnectionError)"

fun is_PermissionError :: "exn \<Rightarrow> bool" where
  "is_PermissionError (Exn k _ _) = (k = PermissionError)"

fun is_OSError :: "exn \<Rightarrow> bool" where
  \<comment> \<open>\<open>requests.exceptions.RequestException\<close> derives from \<open>IOError\<close>, which is \<open>OSError\<close>.\<close>
  "is_OSError (Exn k _ _) =
     (case k of OSError _ \<Rightarrow> True | PermissionError \<Rightarrow> True | ConnectionError \<Rightarrow> True
      | RequestException \<Rightarrow> True | _ \<Rightarrow> False)"

fun winerror :: "exn \<Rightarrow> int option" where
  "winerror (Exn k _ _) = (case k of OSError w \<Rightarrow> w | _ \<Rightarrow> None)"

definition type_repr :: "exn \<Rightarrow> string" where
  \<comment> \<open>\<open>str(type(e))\<close>\<close>
  "type_repr e = ''<class '' @ [CHR 0x27] @ type_name e @ [CHR 0x27] @ ''>''"

datatype http_verb = GET | POST

record request =
  verb :: http_verb
  req_url :: string
  json_body :: "dict option"                  \<comment> \<open>the \<open>json=\<close> argument, when given\<close>
  timeout :: "(real \<times> real) option"           \<comment> \<open>the \<open>timeout=\<close> argument, when given\<close>
  proxies :: "(string \<times> string) list option"  \<comment> \<open>the \<open>proxies=\<close> argument, when given\<close>

record response =
  status_code :: int
  resp_text :: string
  resp_json :: "json option"   \<comment> \<open>the body parsed as JSON, \<open>None\<close> when it is not JSON\<close>

datatype level = DEBUG | INFO | WARNING

record report =
  report_text :: string
  report_timeout :: "int option"    \<comment> \<open>\<open>None\<close>: the default of \<open>reports.add_report\<close>\<close>
  report_type :: "string option"    \<comment> \<open>\<open>None\<close>: the default of \<open>reports.add_report\<close>\<close>

record process =
  pid :: int
  returncode :: "int option"   \<comment> \<open>what \<open>poll()\<close> yields: \<open>None\<close> while the process runs\<close>

record popen_call =
  popen_log_path :: string
  popen_args :: "string option list"
  popen_env :: "(string \<times> string) list"
  popen_creationflags :: int

record completed_process =
  cp_returncode :: int
  cp_stdout :: string   \<comment> \<open>as an f-string shows it\<close>
  cp_stderr :: string

record task =
  task_result :: dict

record host =
  network :: "request list \<Rightarrow> request \<Rightarrow> exn + response"
     \<comment> \<open>the answer to a request, given the requests sent before it\<close>
  getpid :: int
  repr :: "string \<Rightarrow> string"
  global_dir_daemon :: string       \<comment> \<open>\<open>path.abspath(path.join(global_dir, 'daemon'))\<close>\<close>
  pref_api_key :: string
  pref_system_id :: string
  dependencies_path :: string
  preinstalled_deps_path :: string
  installed_deps_path :: string
  urlparse_netloc :: "string \<Rightarrow> string"
  platform_system :: string
  sys_executable :: string
  os_pathsep :: string
  environ :: "(string \<times> string) list"
  python_home :: string             \<comment> \<open>\<open>path.abspath(path.dirname(sys.executable) + "/..")\<close>\<close>
  blender_crt :: string             \<comment> \<open>\<open>path.abspath(path.dirname(sys.executable) + "/../../../blender.crt")\<close>\<close>
  daemon_path :: string             \<comment> \<open>\<open>path.join(path.dirname(__file__), 'daemon/daemon.py')\<close>\<close>
  CREATE_NO_WINDOW :: int
  show_env :: "(string \<times> string) list \<Rightarrow> string"
  subprocess_run :: "string list \<Rightarrow> (string \<times> string) list \<Rightarrow> exn + completed_process"
  open_log :: "string \<Rightarrow> exn option"   \<comment> \<open>\<open>open(log_path, "wb")\<close>: the exception it raises, if any\<close>
  popen :: "popen_call \<Rightarrow> exn + process"

record state =
  DAEMON_PORTS :: "port list"
  DAEMON_FAILED_REPORTS :: int
  DAEMON_ONLINE :: bool
  SERVER :: string
  PREFS :: "string \<rightharpoonup> string"
  VERSION :: "int list"
  daemon_process :: "process option"
  logo_status :: string
  sent :: "request list"              \<comment> \<open>the HTTP requests issued, oldest first\<close>
  reports :: "report list"            \<comment> \<open>the calls of \<open>reports.add_report\<close>, oldest first\<close>
  logged :: "(level \<times> string) list"   \<comment> \<open>the records given to \<open>bk_logger\<close>, oldest first\<close>
  printed :: "string list"            \<comment> \<open>the lines written by \<open>print\<close>\<close>

type_synonym 'a result = "(exn + 'a) \<times> state"
  \<comment> \<open>What a call leaves behind: the value returned or the exception raised, and the state.\<close>

definition TIMEOUT :: "real \<times> real" where
  "TIMEOUT = (0.1, 0.5)"

definition add_report :: "string \<Rightarrow> int option \<Rightarrow> string option \<Rightarrow> state \<Rightarrow> state" where
  "add_report txt t ty s =
     s\<lparr>reports := reports s @ [\<lparr>report_text = txt, report_timeout = t, report_type = ty\<rparr>]\<rparr>"

definition bk_log :: "level \<Rightarrow> string \<Rightarrow> state \<Rightarrow> state" where
  "bk_log l txt s = s\<lparr>logged := logged s @ [(l, txt)]\<rparr>"

definition print :: "string \<Rightarrow> state \<Rightarrow> state" where
  "print txt s = s\<lparr>printed := printed s @ [txt]\<rparr>"

definition digit_char :: "nat \<Rightarrow> char" where
  \<comment> \<open>the decimal digit \<open>d\<close>, for \<open>d < 10\<close>\<close>
  "digit_char d = ''0123456789'' ! d"

fun str_nat :: "nat \<Rightarrow> string" where
  "str_nat n = (if n < 10 then [digit_char n] else str_nat (n div 10) @ [digit_char (n mod 10)])"

declare str_nat.simps [simp del]

definition str_int :: "int \<Rightarrow> string" where
  \<comment> \<open>\<open>str\<close> of an integer, as an f-string formats it\<close>
  "str_int i = (if i < 0 then CHR ''-'' # str_nat (nat (- i)) else str_nat (nat i))"

definition session_send :: "host \<Rightarrow> request \<Rightarrow> state \<Rightarrow> response result" where
  \<comment> \<open>\<open>session.get(...)\<close> / \<open>session.post(...)\<close>: the request goes out and is answered.\<close>
  "session_send h r s = (network h (sent s) r, s\<lparr>sent := sent s @ [r]\<rparr>)"

definition response_json :: "response \<Rightarrow> exn + json" where
  \<comment> \<open>\<open>resp.json()\<close>\<close>
  "response_json r =
     (case resp_json r of
        None \<Rightarrow> Inl (Exn RequestException ''requests.exceptions.JSONDecodeError'' ''Expecting value'')
      | Some j \<Rightarrow> Inr j)"

section \<open>Port registry\<close>

definition get_port :: "state \<Rightarrow> exn + port" where
  "get_port s =
     (case DAEMON_PORTS s of
        [] \<Rightarrow> Inl (Exn IndexError ''IndexError'' ''list index out of range'')
      | p # _ \<Rightarrow> Inr p)"

definition get_address :: "state \<Rightarrow> exn + string" where
  "get_address s =
     (case get_port s of Inl e \<Rightarrow> Inl e | Inr p \<Rightarrow> Inr (''http://127.0.0.1:'' @ p))"

fun list_index :: "'a list \<Rightarrow> 'a \<Rightarrow> nat option" where
  \<comment> \<open>\<open>list.index\<close>: the position of the first equal element.\<close>
  "list_index [] x = None"
| "list_index (y # ys) x = (if y = x then Some 0 else map_option Suc (list_index ys x))"

definition reorder_ports :: "host \<Rightarrow> port \<Rightarrow> state \<Rightarrow> unit result" where
  "reorder_ports h port s =
     (case list_index (DAEMON_PORTS s) port of
        None \<Rightarrow> (Inl (Exn ValueError ''ValueError'' (repr h port @ '' is not in list'')), s)
      | Some i \<Rightarrow>
          (Inr (), s\<lparr>DAEMON_PORTS := drop i (DAEMON_PORTS s) @ take i (DAEMON_PORTS s)\<rparr>))"

section \<open>Fetching reports\<close>

definition request_report :: "host \<Rightarrow> string \<Rightarrow> dict \<Rightarrow> state \<Rightarrow> json result" where
  "request_report h url data s =
     (case session_send h
             \<lparr>verb = GET, req_url = url, json_body = Some data,
              timeout = Some TIMEOUT, proxies = Some []\<rparr> s of
        (Inl e, s') \<Rightarrow> (Inl e, s')
      | (Inr resp, s') \<Rightarrow> (response_json resp, s'))"

definition report_url :: "port \<Rightarrow> string" where
  "report_url port = ''http://127.0.0.1:'' @ port @ ''/report''"

definition raise_None :: exn where
  \<comment> \<open>what \<open>raise last_exception\<close> raises while \<open>last_exception\<close> is still \<open>None\<close>\<close>
  "raise_None = Exn TypeError ''TypeError'' ''exceptions must derive from BaseException''"

definition report_data :: "json \<Rightarrow> string \<Rightarrow> dict" where
  \<comment> \<open>\<open>data = {'app_id': app_id, 'api_key': api_key}\<close>\<close>
  "report_data app_id api_key = [(''app_id'', app_id), (''api_key'', JStr api_key)]"

fun get_reports_loop :: "host \<Rightarrow> dict \<Rightarrow> port list \<Rightarrow> exn option \<Rightarrow> state \<Rightarrow> json result" where
  \<comment> \<open>The \<open>for\<close> loop of \<open>get_reports\<close> over the ports still to try; \<open>raise None\<close> is a
      \<open>TypeError\<close>.\<close>
  "get_reports_loop h data [] last_exception s =
     (case last_exception of
        None \<Rightarrow> (Inl raise_None, s)
      | Some e \<Rightarrow> (Inl e, s))"
| "get_reports_loop h data (port # rest) last_exception s =
     (case request_report h (report_url port) data s of
        (Inl e, s1) \<Rightarrow>
          get_reports_loop h data rest (Some e)
            (print (''Failed to get reports on: '' @ message e) s1)
      | (Inr rep, s1) \<Rightarrow>
          (let s2 = bk_log WARNING
                      (''Got reports port '' @ port @ '', setting it as default for this instance'') s1
           in case reorder_ports h port s2 of
                (Inl e, s3) \<Rightarrow>
                  get_reports_loop h data rest (Some e)
                    (print (''Failed to get reports on: '' @ message e) s3)
              | (Inr _, s3) \<Rightarrow> (Inr rep, s3)))"

definition get_reports :: "host \<Rightarrow> json \<Rightarrow> string \<Rightarrow> state \<Rightarrow> json result" where
  "get_reports h app_id api_key s =
     (let data = report_data app_id api_key
      in if DAEMON_FAILED_REPORTS s < 10 then
           (case get_address s of
              Inl e \<Rightarrow> (Inl e, s)
            | Inr address \<Rightarrow> request_report h (address @ ''/report'') data s)
         else get_reports_loop h data (DAEMON_PORTS s) None s)"

section \<open>Feature requests\<close>

text \<open>
  Every function below opens a session, builds the URL from \<open>get_address()\<close> and issues
  one request. \<open>daemon_call\<close> is that common shape; each function passes the verb, the
  path, the body and the \<open>timeout\<close> and \<open>proxies\<close> arguments exactly as its source line
  gives (or omits) them.
\<close>

definition daemon_call ::
  "host \<Rightarrow> http_verb \<Rightarrow> string \<Rightarrow> dict option \<Rightarrow> (real \<times> real) option \<Rightarrow>
   (string \<times> string) list option \<Rightarrow> state \<Rightarrow> response result" where
  "daemon_call h v path body tmo prx s =
     (case get_address s of
        Inl e \<Rightarrow> (Inl e, s)
      | Inr address \<Rightarrow>
          session_send h
            \<lparr>verb = v, req_url = address @ path, json_body = body, timeout = tmo, proxies = prx\<rparr> s)"

definition json_of_response :: "response result \<Rightarrow> json result" where
  \<comment> \<open>\<open>return resp.json()\<close>\<close>
  "json_of_response r =
     (case r of (Inl e, s) \<Rightarrow> (Inl e, s) | (Inr resp, s) \<Rightarrow> (response_json resp, s))"

definition search_asset :: "host \<Rightarrow> dict \<Rightarrow> state \<Rightarrow> json result" where
  "search_asset h data s =
     (let s0 = bk_log DEBUG ''Starting search request'' s;
          data' = dict_set data ''app_id'' (JInt (getpid h))
      in case daemon_call h POST ''/search_asset'' (Some data') (Some TIMEOUT) (Some []) s0 of
           (Inl e, s1) \<Rightarrow> (Inl e, s1)
         | (Inr resp, s1) \<Rightarrow> (response_json resp, bk_log DEBUG ''Got search response'' s1))"

definition download_asset :: "host \<Rightarrow> dict \<Rightarrow> state \<Rightarrow> json result" where
  "download_asset h data s =
     json_of_response
       (daemon_call h POST ''/download_asset'' (Some (dict_set data ''app_id'' (JInt (getpid h))))
          (Some TIMEOUT) (Some []) s)"

definition upload_asset :: "host \<Rightarrow> json \<Rightarrow> json \<Rightarrow> json \<Rightarrow> state \<Rightarrow> json result" where
  "upload_asset h upload_data export_data upload_set s =
     (let data = [(''app_id'', JInt (getpid h)), (''upload_data'', upload_data),
                  (''export_data'', export_data), (''upload_set'', upload_set)]
      in case get_address s of
           Inl e \<Rightarrow> (Inl e, s)
         | Inr address \<Rightarrow>
             (let url = address @ ''/upload_asset'';
                  s0 = bk_log DEBUG (''making a request to: '' @ url) s
              in json_of_response
                   (session_send h
                      \<lparr>verb = POST, req_url = url, json_body = Some data,
                       timeout = Some TIMEOUT, proxies = Some []\<rparr> s0)))"

definition kill_download :: "host \<Rightarrow> json \<Rightarrow> state \<Rightarrow> response result" where
  "kill_download h task_id s =
     daemon_call h GET ''/kill_download'' (Some [(''task_id'', task_id)]) (Some TIMEOUT) (Some []) s"

definition fetch_gravatar_image :: "host \<Rightarrow> dict \<Rightarrow> state \<Rightarrow> response result" where
  "fetch_gravatar_image h author_data s =
     daemon_call h GET ''/profiles/fetch_gravatar_image''
       (Some (dict_set author_data ''app_id'' (JInt (getpid h)))) None None s"

definition get_user_profile :: "host \<Rightarrow> json \<Rightarrow> state \<Rightarrow> response result" where
  "get_user_profile h api_key s =
     daemon_call h GET ''/profiles/get_user_profile''
       (Some [(''api_key'', api_key), (''app_id'', JInt (getpid h))]) None None s"

definition get_comments :: "host \<Rightarrow> json \<Rightarrow> json \<Rightarrow> state \<Rightarrow> response result" where
  "get_comments h asset_id api_key s =
     daemon_call h POST ''/comments/get_comments''
       (Some [(''asset_id'', asset_id), (''api_key'', api_key), (''app_id'', JInt (getpid h))])
       None None s"

definition create_comment :: "host \<Rightarrow> json \<Rightarrow> json \<Rightarrow> json \<Rightarrow> json \<Rightarrow> state \<Rightarrow> response result" where
  "create_comment h asset_id comment_text api_key reply_to_id s =
     daemon_call h POST ''/comments/create_comment''
       (Some [(''asset_id'', asset_id), (''comment_text'', comment_text), (''api_key'', api_key),
              (''reply_to_id'', reply_to_id), (''app_id'', JInt (getpid h))])
       None None s"

definition feedback_comment :: "host \<Rightarrow> json \<Rightarrow> json \<Rightarrow> json \<Rightarrow> json \<Rightarrow> state \<Rightarrow> response result" where
  "feedback_comment h asset_id comment_id api_key flag s =
     daemon_call h POST ''/comments/feedback_comment''
       (Some [(''asset_id'', asset_id), (''comment_id'', comment_id), (''api_key'', api_key),
              (''flag'', flag), (''app_id'', JInt (getpid h))])
       None None s"

definition mark_comment_private ::
  "host \<Rightarrow> json \<Rightarrow> json \<Rightarrow> json \<Rightarrow> json \<Rightarrow> state \<Rightarrow> response result" where
  "mark_comment_private h asset_id comment_id api_key is_private s =
     daemon_call h POST ''/comments/mark_comment_private''
       (Some [(''asset_id'', asset_id), (''comment_id'', comment_id), (''api_key'', api_key),
              (''is_private'', is_private), (''app_id'', JInt (getpid h))])
       None None s"

definition mark_notification_read :: "host \<Rightarrow> json \<Rightarrow> state \<Rightarrow> response result" where
  "mark_notification_read h notification_id s =
     daemon_call h POST ''/notifications/mark_notification_read''
       (Some [(''notification_id'', notification_id), (''api_key'', JStr (pref_api_key h)),
              (''app_id'', JInt (getpid h))])
       None None s"

definition report_usages :: "host \<Rightarrow> dict \<Rightarrow> state \<Rightarrow> response result" where
  "report_usages h rep s =
     (let rep1 = dict_set rep ''api_key'' (JStr (pref_api_key h));
          rep2 = dict_set rep1 ''app_id'' (JInt (getpid h))
      in daemon_call h POST ''/report_usages'' (Some rep2) None None s)"

definition send_code_verifier :: "host \<Rightarrow> string \<Rightarrow> state \<Rightarrow> response result" where
  "send_code_verifier h code_verifier s =
     daemon_call h POST ''/code_verifier'' (Some [(''code_verifier'', JStr code_verifier)])
       (Some TIMEOUT) (Some []) s"

definition subscript :: "json \<Rightarrow> string \<Rightarrow> exn + json" where
  \<comment> \<open>\<open>resp['key']\<close> on a parsed body\<close>
  "subscript j k =
     (case j of
        JDict d \<Rightarrow>
          (case dict_get d k of
             None \<Rightarrow> Inl (Exn KeyError ''KeyError'' ([CHR 0x27] @ k @ [CHR 0x27]))
           | Some v \<Rightarrow> Inr v)
      | JList _ \<Rightarrow> Inl (Exn TypeError ''TypeError'' ''list indices must be integers or slices, not str'')
      | JStr _ \<Rightarrow> Inl (Exn TypeError ''TypeError'' ''string indices must be integers'')
      | _ \<Rightarrow> Inl (Exn TypeError ''TypeError'' ''object is not subscriptable''))"

definition get_download_url :: "host \<Rightarrow> json \<Rightarrow> json \<Rightarrow> json \<Rightarrow> state \<Rightarrow> (json \<times> json) result" where
  "get_download_url h asset_data scene_id api_key s =
     (let data = [(''app_id'', JInt (getpid h)), (''resolution'', JStr ''blend''),
                  (''asset_data'', asset_data),
                  (''PREFS'', JDict [(''api_key'', api_key), (''scene_id'', scene_id)])]
      in case json_of_response (daemon_call h GET ''/wrappers/get_download_url'' (Some data) None None s) of
           (Inl e, s1) \<Rightarrow> (Inl e, s1)
         | (Inr resp, s1) \<Rightarrow>
             (case subscript resp ''has_url'' of
                Inl e \<Rightarrow> (Inl e, s1)
              | Inr has_url \<Rightarrow>
                  (case subscript resp ''asset_data'' of
                     Inl e \<Rightarrow> (Inl e, s1)
                   | Inr ad \<Rightarrow> (Inr (has_url, ad), s1))))"

definition refresh_token :: "host \<Rightarrow> json \<Rightarrow> state \<Rightarrow> response result" where
  "refresh_token h token s =
     daemon_call h GET ''/refresh_token'' (Some [(''refresh_token'', token)])
       (Some TIMEOUT) (Some []) s"

definition report_blender_quit :: "host \<Rightarrow> state \<Rightarrow> response result" where
  "report_blender_quit h s =
     daemon_call h GET ''/report_blender_quit'' (Some [(''app_id'', JInt (getpid h))])
       (Some TIMEOUT) (Some []) s"

definition kill_daemon_server :: "host \<Rightarrow> state \<Rightarrow> response result" where
  "kill_daemon_server h s = daemon_call h GET ''/shutdown'' None (Some TIMEOUT) (Some []) s"

section \<open>Health probe\<close>

definition daemon_is_alive :: "host \<Rightarrow> state \<Rightarrow> (bool \<times> string) result" where
  "daemon_is_alive h s =
     (case get_address s of
        Inl e \<Rightarrow> (Inl e, s)
      | Inr address \<Rightarrow>
          (case session_send h
                  \<lparr>verb = GET, req_url = address, json_body = None,
                   timeout = Some TIMEOUT, proxies = Some []\<rparr> s of
             (Inr resp, s1) \<Rightarrow>
               if status_code resp \<noteq> 200
               then (Inr (False, ''Server response not 200: '' @ str_int (status_code resp)), s1)
               else (Inr (True, ''Server alive, PID: '' @ resp_text resp), s1)
           | (Inl err, s1) \<Rightarrow>
               if is_ConnectionError err
               then (Inr (False, ''EXCEPTION OCCURED:'' @ [CHR 0x22] @ '', '' @ message err @ '', ''
                                   @ type_repr err), s1)
               else (Inl err, s1)))"

section \<open>Status notifier\<close>

definition handle_daemon_status_task :: "host \<Rightarrow> task \<Rightarrow> state \<Rightarrow> unit result" where
  "handle_daemon_status_task h t s =
     (case dict_get (task_result t) ''online_status'' of
        None \<Rightarrow> (Inl (Exn KeyError ''KeyError'' ([CHR 0x27] @ ''online_status'' @ [CHR 0x27])), s)
      | Some bk_server_status \<Rightarrow>
          if bk_server_status = JInt 200 then
            (if DAEMON_ONLINE s = False then
               (Inr (),
                (add_report (''Connected to '' @ urlparse_netloc h (SERVER s)) None None s)
                  \<lparr>logo_status := ''logo'', DAEMON_ONLINE := True\<rparr>)
             else (Inr (), s))
          else if DAEMON_ONLINE s = True then
            (let s1 =
               (if bk_server_status = JInt 429
                then add_report (''API limit exceeded for '' @ urlparse_netloc h (SERVER s))
                       (Some 10) (Some ''ERROR'') s
                else add_report (''Disconnected from '' @ urlparse_netloc h (SERVER s))
                       (Some 10) (Some ''ERROR'') s)
             in (Inr (), s1\<lparr>logo_status := ''logo_offline'', DAEMON_ONLINE := False\<rparr>))
          else (Inr (), s))"

section \<open>Exit codes of the daemon\<close>

definition get_daemon_directory_path :: "host \<Rightarrow> string" where
  "get_daemon_directory_path h = global_dir_daemon h"

definition exit_code_message :: "host \<Rightarrow> string \<Rightarrow> int \<Rightarrow> string" where
  \<comment> \<open>the \<open>if\<close>/\<open>elif\<close> chain of \<open>check_daemon_exit_code\<close>\<close>
  "exit_code_message h log_path exit_code =
     (if exit_code = 101 then
        ''failed to import AIOHTTP. Try to delete '' @ dependencies_path h @ '' and restart Blender.''
      else if exit_code = 102 then
        ''failed to import CERTIFI. Try to delete '' @ dependencies_path h @ '' and restart Blender.''
      else if exit_code = 100 then
        ''unexpected OSError. Please report a bug and paste content of log '' @ log_path
      else if exit_code = 111 then
        ''unable to bind any socket. Check your antivirus/firewall and unblock BlenderKit.''
      else if exit_code = 113 then
        ''cannot open port. Check your antivirus/firewall and unblock BlenderKit.''
      else if exit_code = 114 then
        ''invalid pointer address. Please report a bug and paste content of log '' @ log_path
      else if exit_code = 121 then
        ''semaphore timeout exceeded. In preferences set IP version to '' @ [CHR 0x22]
          @ ''Use only IPv4'' @ [CHR 0x22] @ ''.''
      else if exit_code = 148 then
        ''address already in use. Select different daemon port in preferences.''
      else if exit_code = 149 then
        ''address already in use. Select different daemon port in preferences.''
      else
        ''unexpected Exception. Please report a bug and paste content of log '' @ log_path)"

definition check_daemon_exit_code :: "host \<Rightarrow> state \<Rightarrow> (int option \<times> string) result" where
  "check_daemon_exit_code h s =
     (case daemon_process s of
        None \<Rightarrow>
          (Inl (Exn AttributeError ''AttributeError''
                  ([CHR 0x27] @ ''NoneType'' @ [CHR 0x27] @ '' object has no attribute ''
                   @ [CHR 0x27] @ ''poll'' @ [CHR 0x27])), s)
      | Some pr \<Rightarrow>
          (case returncode pr of
             None \<Rightarrow> (Inr (None, ''Daemon process is running.''), s)
           | Some exit_code \<Rightarrow>
               (case get_port s of
                  Inl e \<Rightarrow> (Inl e, s)
                | Inr port \<Rightarrow>
                    (let log_path = get_daemon_directory_path h @ ''/daemon-'' @ port @ ''.log''
                     in (Inr (Some exit_code, exit_code_message h log_path exit_code), s)))))"

section \<open>Starting the daemon\<close>

definition build_env :: "host \<Rightarrow> exn + ((string \<times> string) list \<times> int)" where
  \<comment> \<open>the environment and the creation flags of the child (\<open>env['PATH']\<close> is read on
      Windows only and raises \<open>KeyError\<close> when unset)\<close>
  "build_env h =
     (let env1 = AList.update ''PYTHONPATH''
                   (installed_deps_path h @ os_pathsep h @ preinstalled_deps_path h) (environ h);
          env2 = AList.update ''PYTHONHOME'' (python_home h) env1
      in if platform_system h = ''Windows'' then
           (case map_of env2 ''PATH'' of
              None \<Rightarrow> Inl (Exn KeyError ''KeyError'' ([CHR 0x27] @ ''PATH'' @ [CHR 0x27]))
            | Some pth \<Rightarrow>
                Inr (AList.update ''PATH'' (pth @ os_pathsep h @ blender_crt h) env2,
                     CREATE_NO_WINDOW h))
         else Inr (env2, 0))"

definition version_string :: "state \<Rightarrow> exn + string" where
  \<comment> \<open>\<open>f'{VERSION[0]}.{VERSION[1]}.{VERSION[2]}.{VERSION[3]}'\<close>\<close>
  "version_string s =
     (case VERSION s of
        a # b # c # d # _ \<Rightarrow>
          Inr (str_int a @ ''.'' @ str_int b @ ''.'' @ str_int c @ ''.'' @ str_int d)
      | _ \<Rightarrow> Inl (Exn IndexError ''IndexError'' ''tuple index out of range''))"

definition try_spawn ::
  "host \<Rightarrow> string \<Rightarrow> (string \<times> string) list \<Rightarrow> int \<Rightarrow> state \<Rightarrow> exn + process" where
  \<comment> \<open>the body of the \<open>try\<close>: open the log file, build the argument list, start the child\<close>
  "try_spawn h log_path env creation_flags s =
     (case open_log h log_path of
        Some e \<Rightarrow> Inl e
      | None \<Rightarrow>
          (case get_port s of
             Inl e \<Rightarrow> Inl e
           | Inr port \<Rightarrow>
               (case version_string s of
                  Inl e \<Rightarrow> Inl e
                | Inr v \<Rightarrow>
                    popen h
                      \<lparr>popen_log_path = log_path,
                       popen_args =
                         [Some (sys_executable h),
                          Some ''-u'', Some (daemon_path h),
                          Some ''--port'', Some port,
                          Some ''--server'', Some (SERVER s),
                          Some ''--proxy_which'', PREFS s ''proxy_which'',
                          Some ''--proxy_address'', PREFS s ''proxy_address'',
                          Some ''--proxy_ca_certs'', PREFS s ''proxy_ca_certs'',
                          Some ''--ip_version'', PREFS s ''ip_version'',
                          Some ''--system_id'', Some (pref_system_id h),
                          Some ''--version'', Some v],
                       popen_env = env,
                       popen_creationflags = creation_flags\<rparr>)))"

definition spawn_failed :: "host \<Rightarrow> string \<Rightarrow> exn \<Rightarrow> state \<Rightarrow> unit result" where
  \<comment> \<open>the \<open>except\<close> clauses of \<open>start_daemon_server\<close>, in their order\<close>
  "spawn_failed h daemon_dir e s =
     (if is_PermissionError e then
        (Inl e,
         add_report (''FATAL ERROR: Write access denied to '' @ daemon_dir
                     @ ''. Check you have write permissions to the directory.'')
           (Some 10) (Some ''ERROR'') s)
      else if is_OSError e then
        (if platform_system h \<noteq> ''Windows'' then
           (Inl e, add_report (message e) (Some 10) (Some ''ERROR'') s)
         else if winerror e = Some 87 then
           (Inl e,
            add_report (''FATAL ERROR: Daemon server blocked from starting. ''
                        @ ''Please check your antivirus or firewall. Error: '' @ message e)
              (Some 10) (Some ''ERROR'') s)
         else (Inl e, add_report (message e) (Some 10) (Some ''ERROR'') s))
      else
        (Inl e,
         add_report (''Error: Daemon server failed to start - '' @ message e)
           (Some 10) (Some ''ERROR'') s))"

definition python_check_warning :: "host \<Rightarrow> completed_process \<Rightarrow> (string \<times> string) list \<Rightarrow> string" where
  "python_check_warning h chk env =
     ''Error checking Python interpreter, exit code: '' @ str_int (cp_returncode chk) @ '',''
     @ ''Stdout: '' @ cp_stdout chk @ '', ''
     @ ''Stderr: '' @ cp_stderr chk @ '', ''
     @ ''Where Python: '' @ sys_executable h @ '', ''
     @ ''Environment: '' @ show_env h env"

definition start_daemon_server :: "host \<Rightarrow> state \<Rightarrow> unit result" where
  "start_daemon_server h s =
     (let daemon_dir = get_daemon_directory_path h
      in case get_port s of
           Inl e \<Rightarrow> (Inl e, s)
         | Inr port \<Rightarrow>
             (let log_path = daemon_dir @ ''/daemon-'' @ port @ ''.log''
              in case build_env h of
                   Inl e \<Rightarrow> (Inl e, s)
                 | Inr (env, creation_flags) \<Rightarrow>
                     (case subprocess_run h [sys_executable h, ''--version''] env of
                        Inl e \<Rightarrow> (Inl e, s)
                      | Inr python_check \<Rightarrow>
                          (let s1 = (if cp_returncode python_check \<noteq> 0
                                     then bk_log WARNING (python_check_warning h python_check env) s
                                     else s)
                           in case try_spawn h log_path env creation_flags s1 of
                                Inl e \<Rightarrow> spawn_failed h daemon_dir e s1
                              | Inr pr \<Rightarrow>
                                  (let s2 = s1\<lparr>daemon_process := Some pr\<rparr>;
                                       address = ''http://127.0.0.1:'' @ port
                                   in if cp_returncode python_check = 0 then
                                        (Inr (),
                                         bk_log INFO
                                           (''Daemon server starting on address '' @ address
                                            @ '', log file for errors located at: '' @ log_path) s2)
                                      else
                                        (Inr (),
                                         add_report
                                           (''Due to unsuccessful Python check the daemon server will ''
                                            @ ''probably fail to run. Please report a bug at BlenderKit.'')
                                           (Some 5) (Some ''ERROR'')
                                           (bk_log WARNING
                                              (''Tried to start daemon server on address '' @ address
                                               @ '', PID: '' @ str_int (pid pr) @ '','' @ [CHR 0x0A]
                                               @ ''log file located at: '' @ log_path) s2)))))))"

section \<open>Vocabulary of the properties\<close>

text \<open>
  The request that \<open>request_report\<close> sends for a port, and the outcome of that request
  when it is sent after the requests \<open>before\<close>: the parsed report, or the exception that
  \<open>request_report\<close> raises.
\<close>

definition report_request :: "dict \<Rightarrow> port \<Rightarrow> request" where
  "report_request data port =
     \<lparr>verb = GET, req_url = report_url port, json_body = Some data,
      timeout = Some TIMEOUT, proxies = Some []\<rparr>"

definition report_answer :: "host \<Rightarrow> dict \<Rightarrow> request list \<Rightarrow> port \<Rightarrow> exn + json" where
  "report_answer h data before port =
     (case network h before (report_request data port) of
        Inl e \<Rightarrow> Inl e
      | Inr resp \<Rightarrow> response_json resp)"

definition fallback_answer :: "host \<Rightarrow> dict \<Rightarrow> request list \<Rightarrow> port list \<Rightarrow> nat \<Rightarrow> exn + json" where
  \<comment> \<open>the outcome for the \<open>i\<close>-th port when the ports before it have been asked in order\<close>
  "fallback_answer h data before ports i =
     report_answer h data (before @ map (report_request data) (take i ports)) (ports ! i)"

definition rotated_to :: "port \<Rightarrow> port list \<Rightarrow> port list" where
  \<comment> \<open>the registry turned left until the first occurrence of \<open>p\<close> leads\<close>
  "rotated_to p ports = dropWhile (\<lambda>q. q \<noteq> p) ports @ takeWhile (\<lambda>q. q \<noteq> p) ports"

text \<open>The feature operations of the module, and the requests that one call of each sends.\<close>

datatype operation =
    SearchAsset dict
  | DownloadAsset dict
  | UploadAsset json json json
  | KillDownload json
  | FetchGravatarImage dict
  | GetUserProfile json
  | GetComments json json
  | CreateComment json json json json
  | FeedbackComment json json json json
  | MarkCommentPrivate json json json json
  | MarkNotificationRead json
  | ReportUsages dict
  | SendCodeVerifier string
  | GetDownloadUrl json json json
  | RefreshToken json
  | ReportBlenderQuit
  | KillDaemonServer
  | GetReports json string

fun perform :: "host \<Rightarrow> operation \<Rightarrow> state \<Rightarrow> state" where
  \<comment> \<open>the state a call leaves, whether it returns or raises\<close>
  "perform h (SearchAsset d) s = snd (search_asset h d s)"
| "perform h (DownloadAsset d) s = snd (download_asset h d s)"
| "perform h (UploadAsset u e t) s = snd (upload_asset h u e t s)"
| "perform h (KillDownload t) s = snd (kill_download h t s)"
| "perform h (FetchGravatarImage d) s = snd (fetch_gravatar_image h d s)"
| "perform h (GetUserProfile k) s = snd (get_user_profile h k s)"
| "perform h (GetComments a k) s = snd (get_comments h a k s)"
| "perform h (CreateComment a c k r) s = snd (create_comment h a c k r s)"
| "perform h (FeedbackComment a c k f) s = snd (feedback_comment h a c k f s)"
| "perform h (MarkCommentPrivate a c k p) s = snd (mark_comment_private h a c k p s)"
| "perform h (MarkNotificationRead n) s = snd (mark_notification_read h n s)"
| "perform h (ReportUsages r) s = snd (report_usages h r s)"
| "perform h (SendCodeVerifier c) s = snd (send_code_verifier h c s)"
| "perform h (GetDownloadUrl a sc k) s = snd (get_download_url h a sc k s)"
| "perform h (RefreshToken t) s = snd (refresh_token h t s)"
| "perform h ReportBlenderQuit s = snd (report_blender_quit h s)"
| "perform h KillDaemonServer s = snd (kill_daemon_server h s)"
| "perform h (GetReports a k) s = snd (get_reports h a k s)"

definition requests_of :: "host \<Rightarrow> operation \<Rightarrow> state \<Rightarrow> request list" where
  "requests_of h opn s = drop (length (sent s)) (sent (perform h opn s))"

fun expected_app_id :: "host \<Rightarrow> operation \<Rightarrow> json option" where
  \<comment> \<open>the \<open>app_id\<close> entry of the body each operation sends, read off its source\<close>
  "expected_app_id h (KillDownload t) = None"
| "expected_app_id h (SendCodeVerifier c) = None"
| "expected_app_id h (RefreshToken t) = None"
| "expected_app_id h KillDaemonServer = None"
| "expected_app_id h (GetReports a k) = Some a"
| "expected_app_id h _ = Some (JInt (getpid h))"

definition body_app_id :: "request \<Rightarrow> json option" where
  "body_app_id r = (case json_body r of None \<Rightarrow> None | Some d \<Rightarrow> dict_get d ''app_id'')"

section \<open>A concrete installation\<close>

definition refused :: exn where
  "refused = Exn ConnectionError ''requests.exceptions.ConnectionError'' ''Connection refused''"

definition example_host :: host where
  \<comment> \<open>a daemon that answers on port 81 only\<close>
  "example_host =
     \<lparr>network = (\<lambda>before r.
          if take 19 (req_url r) = ''http://127.0.0.1:81''
          then Inr \<lparr>status_code = 200, resp_text = ''[81]'', resp_json = Some (JList [JInt 81])\<rparr>
          else Inl refused),
      getpid = 4242,
      repr = (\<lambda>x. [CHR 0x27] @ x @ [CHR 0x27]),
      global_dir_daemon = ''/home/user/blenderkit_data/daemon'',
      pref_api_key = ''key'',
      pref_system_id = ''1234'',
      dependencies_path = ''/home/user/blenderkit_data/dependencies'',
      preinstalled_deps_path = ''/addons/blenderkit/dependencies/Linux'',
      installed_deps_path = ''/home/user/blenderkit_data/dependencies/installed'',
      urlparse_netloc = drop 8,
      platform_system = ''Linux'',
      sys_executable = ''/blender/3.4/python/bin/python3.10'',
      os_pathsep = '':'',
      environ = [(''PATH'', ''/usr/bin'')],
      python_home = ''/blender/3.4/python'',
      blender_crt = ''/blender/blender.crt'',
      daemon_path = ''/addons/blenderkit/daemon/daemon.py'',
      CREATE_NO_WINDOW = 134217728,
      show_env = (\<lambda>e. ''{...}''),
      subprocess_run =
        (\<lambda>args env. Inr \<lparr>cp_returncode = 0, cp_stdout = ''Python 3.10.8'', cp_stderr = []\<rparr>),
      open_log = (\<lambda>path. None),
      popen = (\<lambda>c. Inr \<lparr>pid = 777, returncode = None\<rparr>)\<rparr>"

definition example_state :: state where
  "example_state =
     \<lparr>DAEMON_PORTS = [''80'', ''81'', ''82''],
      DAEMON_FAILED_REPORTS = 10,
      DAEMON_ONLINE = False,
      SERVER = ''https://www.blenderkit.com'',
      PREFS = [''proxy_which'' \<mapsto> ''SYSTEM'', ''proxy_address'' \<mapsto> [],
               ''proxy_ca_certs'' \<mapsto> [], ''ip_version'' \<mapsto> ''BOTH''],
      VERSION = [3, 4, 0, 230101],
      daemon_process = None,
      logo_status = ''logo'',
      sent = [], reports = [], logged = [], printed = []\<rparr>"

definition nine_failures :: state where
  \<comment> \<open>the same installation after nine failed report fetches\<close>
  "nine_failures = example_state\<lparr>DAEMON_FAILED_REPORTS := 9\<rparr>"

text \<open>The request list that one call through \<open>daemon_call\<close> adds: none when the
  registry is empty (\<open>get_address\<close> raises first), one otherwise.\<close>

definition call_request ::
  "state \<Rightarrow> http_verb \<Rightarrow> string \<Rightarrow> dict option \<Rightarrow> (real \<times> real) option \<Rightarrow>
   (string \<times> string) list option \<Rightarrow> request list" where
  "call_request s v path body tmo prx =
     (case DAEMON_PORTS s of
        [] \<Rightarrow> []
      | p # _ \<Rightarrow>
          [\<lparr>verb = v, req_url = ''http://127.0.0.1:'' @ p @ path, json_body = body,
            timeout = tmo, proxies = prx\<rparr>])"

definition exited_with :: "int option \<Rightarrow> state" where
  \<comment> \<open>the concrete installation with a daemon process whose \<open>poll()\<close> yields \<open>c\<close>\<close>
  "exited_with c = example_state\<lparr>daemon_process := Some \<lparr>pid = 777, returncode = c\<rparr>\<rparr>"

definition mapped_exit_codes :: "int set" where
  \<comment> \<open>the exit codes that the \<open>if\<close>/\<open>elif\<close> chain names\<close>
  "mapped_exit_codes = {100, 101, 102, 111, 113, 114, 121, 148, 149}"

definition probe_request :: "port \<Rightarrow> request" where
  \<comment> \<open>the request of \<open>daemon_is_alive\<close> when \<open>port\<close> is the default port\<close>
  "probe_request port =
     \<lparr>verb = GET, req_url = ''http://127.0.0.1:'' @ port, json_body = None,
      timeout = Some TIMEOUT, proxies = Some []\<rparr>"

definition unavailable_host :: host where
  \<comment> \<open>a daemon that answers every request with status 503\<close>
  "unavailable_host =
     example_host\<lparr>network := (\<lambda>before r.
        Inr \<lparr>status_code = 503, resp_text = ''Service Unavailable'', resp_json = None\<rparr>)\<rparr>"

definition timing_out_host :: host where
  \<comment> \<open>a daemon that accepts the connection and then never answers\<close>
  "timing_out_host =
     example_host\<lparr>network := (\<lambda>before r.
        Inl (Exn RequestException ''requests.exceptions.ReadTimeout'' ''Read timed out.''))\<rparr>"

definition status_task :: "int \<Rightarrow> task" where
  \<comment> \<open>the task of a status probe that reports \<open>st\<close>\<close>
  "status_task st = \<lparr>task_result = [(''online_status'', JInt st)]\<rparr>"

definition notices_of :: "host \<Rightarrow> task \<Rightarrow> state \<Rightarrow> report list" where
  \<comment> \<open>the notices that handling one task adds\<close>
  "notices_of h t s = drop (length (reports s)) (reports (snd (handle_daemon_status_task h t s)))"

definition read_only_host :: host where
  \<comment> \<open>the daemon directory cannot be written\<close>
  "read_only_host =
     example_host\<lparr>open_log := (\<lambda>path.
        Some (Exn PermissionError ''PermissionError'' ''[Errno 13] Permission denied''))\<rparr>"

definition blocked_windows_host :: host where
  \<comment> \<open>Windows refuses to create the process: \<open>WinError 87\<close>\<close>
  "blocked_windows_host =
     example_host\<lparr>platform_system := ''Windows'',
                  popen := (\<lambda>c. Inl (Exn (OSError (Some 87)) ''OSError''
                                        ''[WinError 87] The parameter is incorrect''))\<rparr>"

definition broken_python_host :: host where
  \<comment> \<open>the interpreter check exits with code 1\<close>
  "broken_python_host =
     example_host\<lparr>subprocess_run := (\<lambda>args env.
        Inr \<lparr>cp_returncode = 1, cp_stdout = [], cp_stderr = ''cannot start''\<rparr>)\<rparr>"

definition log_path_of :: "host \<Rightarrow> port \<Rightarrow> string" where
  \<comment> \<open>\<open>f'{daemon_dir}/daemon-{get_port()}.log'\<close>\<close>
  "log_path_of h port = get_daemon_directory_path h @ ''/daemon-'' @ port @ ''.log''"

definition failure_report_text :: "host \<Rightarrow> exn \<Rightarrow> string" where
  \<comment> \<open>the text of the report for each class of spawn failure\<close>
  "failure_report_text h e =
     (if is_PermissionError e then
        ''FATAL ERROR: Write access denied to '' @ get_daemon_directory_path h
        @ ''. Check you have write permissions to the directory.''
      else if is_OSError e \<and> platform_system h = ''Windows'' \<and> winerror e = Some 87 then
        ''FATAL ERROR: Daemon server blocked from starting. ''
        @ ''Please check your antivirus or firewall. Error: '' @ message e
      else if is_OSError e then message e
      else ''Error: Daemon server failed to start - '' @ message e)"

section \<open>Lemmas on the registry and the fallback loop\<close>

lemma list_index_None: "list_index xs x = None \<longleftrightarrow> x \<notin> set xs"
  by (induction xs) auto

lemma list_index_Some:
  "list_index xs x = Some i \<Longrightarrow> take i xs = takeWhile (\<lambda>q. q \<noteq> x) xs \<and> drop i xs = dropWhile (\<lambda>q. q \<noteq> x) xs"
proof (induction xs arbitrary: i)
  case Nil
  then show ?case by simp
next
  case (Cons y ys)
  then show ?case by (cases "y = x") auto
qed

lemma reorder_ports_present:
  assumes "p \<in> set (DAEMON_PORTS s)"
  shows "reorder_ports h p s = (Inr (), s\<lparr>DAEMON_PORTS := rotated_to p (DAEMON_PORTS s)\<rparr>)"
proof -
  from assms obtain i where i: "list_index (DAEMON_PORTS s) p = Some i"
    using list_index_None [of "DAEMON_PORTS s" p] by (cases "list_index (DAEMON_PORTS s) p") auto
  show ?thesis
    using list_index_Some [OF i] by (simp add: reorder_ports_def i rotated_to_def)
qed

lemma reorder_ports_absent:
  assumes "p \<notin> set (DAEMON_PORTS s)"
  shows "reorder_ports h p s = (Inl (Exn ValueError ''ValueError'' (repr h p @ '' is not in list'')), s)"
  using assms list_index_None [of "DAEMON_PORTS s" p] by (simp add: reorder_ports_def)

lemma request_report_eq:
  "request_report h (report_url p) data s =
     (report_answer h data (sent s) p, s\<lparr>sent := sent s @ [report_request data p]\<rparr>)"
  by (simp add: request_report_def session_send_def report_answer_def report_request_def
      split: sum.splits)

lemma loop_Nil:
  "get_reports_loop h data [] lst s =
     (Inl (case lst of None \<Rightarrow> raise_None | Some e \<Rightarrow> e), s)"
  by (simp split: option.splits)

lemma loop_fail:
  assumes "report_answer h data (sent s) p = Inl e"
  shows "get_reports_loop h data (p # rest) lst s =
     get_reports_loop h data rest (Some e)
       (print (''Failed to get reports on: '' @ message e) (s\<lparr>sent := sent s @ [report_request data p]\<rparr>))"
  using assms by (simp add: request_report_eq)

lemma loop_success:
  assumes "report_answer h data (sent s) p = Inr j" "p \<in> set (DAEMON_PORTS s)"
  shows "\<exists>s'. get_reports_loop h data (p # rest) lst s = (Inr j, s') \<and>
      sent s' = sent s @ [report_request data p] \<and>
      DAEMON_PORTS s' = rotated_to p (DAEMON_PORTS s) \<and>
      DAEMON_FAILED_REPORTS s' = DAEMON_FAILED_REPORTS s"
proof -
  let ?s2 = "bk_log WARNING (''Got reports port '' @ p @ '', setting it as default for this instance'')
      (s\<lparr>sent := sent s @ [report_request data p]\<rparr>)"
  have "p \<in> set (DAEMON_PORTS ?s2)" using assms(2) by (simp add: bk_log_def)
  from reorder_ports_present [OF this, of h]
  show ?thesis using assms(1) by (simp add: request_report_eq Let_def bk_log_def)
qed


lemma fallback_answer_0: "fallback_answer h data before (p # rest) 0 = report_answer h data before p"
  by (simp add: fallback_answer_def)

lemma fallback_answer_Suc:
  "fallback_answer h data before (p # rest) (Suc i) =
     fallback_answer h data (before @ [report_request data p]) rest i"
  by (simp add: fallback_answer_def)

lemma loop_char:
  assumes "set rest \<subseteq> set (DAEMON_PORTS s)"
    and "get_reports_loop h data rest lst s = (res, s')"
  shows "\<exists>n\<le>length rest.
      sent s' = sent s @ map (report_request data) (take n rest) \<and>
      DAEMON_FAILED_REPORTS s' = DAEMON_FAILED_REPORTS s \<and>
      (\<forall>i. Suc i < n \<longrightarrow> isl (fallback_answer h data (sent s) rest i)) \<and>
      (case res of
         Inr j \<Rightarrow> 0 < n \<and> fallback_answer h data (sent s) rest (n - 1) = Inr j \<and>
                  DAEMON_PORTS s' = rotated_to (rest ! (n - 1)) (DAEMON_PORTS s)
       | Inl e \<Rightarrow> n = length rest \<and> DAEMON_PORTS s' = DAEMON_PORTS s \<and>
                  (if rest = [] then e = (case lst of None \<Rightarrow> raise_None | Some e0 \<Rightarrow> e0)
                   else fallback_answer h data (sent s) rest (n - 1) = Inl e))"
  using assms
proof (induction rest arbitrary: lst s)
  case Nil
  then show ?case by (auto split: option.splits)
next
  case (Cons p rest)
  show ?case
  proof (cases "report_answer h data (sent s) p")
    case (Inl e)
    let ?s1 = "print (''Failed to get reports on: '' @ message e)
                 (s\<lparr>sent := sent s @ [report_request data p]\<rparr>)"
    have ports1: "DAEMON_PORTS ?s1 = DAEMON_PORTS s"
      and cnt1: "DAEMON_FAILED_REPORTS ?s1 = DAEMON_FAILED_REPORTS s"
      and sent1: "sent ?s1 = sent s @ [report_request data p]"
      by (simp_all add: print_def)
    have run: "get_reports_loop h data rest (Some e) ?s1 = (res, s')"
      using Cons.prems(2) loop_fail [OF Inl] by simp
    have sub: "set rest \<subseteq> set (DAEMON_PORTS ?s1)"
      using Cons.prems(1) ports1 by simp
    from Cons.IH [OF sub run] obtain n where n: "n \<le> length rest"
      and tr: "sent s' = sent ?s1 @ map (report_request data) (take n rest)"
      and cnt: "DAEMON_FAILED_REPORTS s' = DAEMON_FAILED_REPORTS ?s1"
      and fails: "\<forall>i. Suc i < n \<longrightarrow> isl (fallback_answer h data (sent ?s1) rest i)"
      and fin: "(case res of
         Inr j \<Rightarrow> 0 < n \<and> fallback_answer h data (sent ?s1) rest (n - 1) = Inr j \<and>
                  DAEMON_PORTS s' = rotated_to (rest ! (n - 1)) (DAEMON_PORTS ?s1)
       | Inl e' \<Rightarrow> n = length rest \<and> DAEMON_PORTS s' = DAEMON_PORTS ?s1 \<and>
                  (if rest = [] then e' = (case Some e of None \<Rightarrow> raise_None | Some e0 \<Rightarrow> e0)
                   else fallback_answer h data (sent ?s1) rest (n - 1) = Inl e'))"
      by blast
    have a: "Suc n \<le> length (p # rest)" using n by simp
    have b: "sent s' = sent s @ map (report_request data) (take (Suc n) (p # rest))"
      using tr sent1 by simp
    have c: "DAEMON_FAILED_REPORTS s' = DAEMON_FAILED_REPORTS s" using cnt cnt1 by simp
    have d: "\<forall>i. Suc i < Suc n \<longrightarrow> isl (fallback_answer h data (sent s) (p # rest) i)"
    proof (intro allI impI)
      fix i assume i: "Suc i < Suc n"
      show "isl (fallback_answer h data (sent s) (p # rest) i)"
      proof (cases i)
        case 0
        then show ?thesis using Inl by (simp add: fallback_answer_0)
      next
        case (Suc k)
        then have "Suc k < n" using i by simp
        then show ?thesis using fails Suc sent1 by (simp add: fallback_answer_Suc)
      qed
    qed
    have e: "(case res of
         Inr j \<Rightarrow> 0 < Suc n \<and> fallback_answer h data (sent s) (p # rest) (Suc n - 1) = Inr j \<and>
                  DAEMON_PORTS s' = rotated_to ((p # rest) ! (Suc n - 1)) (DAEMON_PORTS s)
       | Inl e' \<Rightarrow> Suc n = length (p # rest) \<and> DAEMON_PORTS s' = DAEMON_PORTS s \<and>
                  (if p # rest = [] then e' = (case lst of None \<Rightarrow> raise_None | Some e0 \<Rightarrow> e0)
                   else fallback_answer h data (sent s) (p # rest) (Suc n - 1) = Inl e'))"
    proof (cases res)
      case (Inl e')
      with fin have f: "n = length rest" "DAEMON_PORTS s' = DAEMON_PORTS s"
        "rest = [] \<Longrightarrow> e' = e"
        "rest \<noteq> [] \<Longrightarrow> fallback_answer h data (sent ?s1) rest (n - 1) = Inl e'"
        using ports1 by (auto split: if_splits)
      show ?thesis
      proof (cases rest)
        case Nil
        then show ?thesis
          using f \<open>res = Inl e'\<close> \<open>report_answer h data (sent s) p = Inl e\<close>
          by (simp add: fallback_answer_0)
      next
        case (Cons q qs)
        then obtain m where m: "n = Suc m" using f(1) by simp
        show ?thesis
          using f Cons m \<open>res = Inl e'\<close> sent1 by (simp add: fallback_answer_Suc)
      qed
    next
      case (Inr j)
      with fin have f: "0 < n" "fallback_answer h data (sent ?s1) rest (n - 1) = Inr j"
        "DAEMON_PORTS s' = rotated_to (rest ! (n - 1)) (DAEMON_PORTS s)"
        using ports1 by auto
      then obtain m where m: "n = Suc m" by (cases n) auto
      show ?thesis using f m Inr sent1 by (simp add: fallback_answer_Suc)
    qed
    show ?thesis
      using a b c d e by blast
  next
    case (Inr j)
    have "p \<in> set (DAEMON_PORTS s)" using Cons.prems(1) by simp
    from loop_success [OF Inr this, of rest lst] Cons.prems(2)
    have r: "res = Inr j" "sent s' = sent s @ [report_request data p]"
      "DAEMON_PORTS s' = rotated_to p (DAEMON_PORTS s)"
      "DAEMON_FAILED_REPORTS s' = DAEMON_FAILED_REPORTS s"
      by auto
    have "(1::nat) \<le> length (p # rest)" by simp
    moreover have "sent s' = sent s @ map (report_request data) (take 1 (p # rest))"
      using r by simp
    moreover have "\<forall>i. Suc i < 1 \<longrightarrow> isl (fallback_answer h data (sent s) (p # rest) i)"
      by simp
    moreover have "(case res of
         Inr j \<Rightarrow> 0 < (1::nat) \<and> fallback_answer h data (sent s) (p # rest) (1 - 1) = Inr j \<and>
                  DAEMON_PORTS s' = rotated_to ((p # rest) ! (1 - 1)) (DAEMON_PORTS s)
       | Inl e' \<Rightarrow> 1 = length (p # rest) \<and> DAEMON_PORTS s' = DAEMON_PORTS s \<and>
                  (if p # rest = [] then e' = (case lst of None \<Rightarrow> raise_None | Some e0 \<Rightarrow> e0)
                   else fallback_answer h data (sent s) (p # rest) (1 - 1) = Inl e'))"
      using r Inr by (simp add: fallback_answer_0)
    ultimately show ?thesis using r(4) by blast
  qed
qed

lemma rotated_to_split:
  assumes "p \<in> set ports"
  shows "\<exists>before after. ports = before @ p # after \<and> p \<notin> set before \<and>
           rotated_to p ports = p # after @ before"
proof -
  let ?b = "takeWhile (\<lambda>q. q \<noteq> p) ports" and ?d = "dropWhile (\<lambda>q. q \<noteq> p) ports"
  have "?d \<noteq> []" using assms by (simp add: dropWhile_eq_Nil_conv) 
  then obtain x after where d: "?d = x # after" by (cases ?d) auto
  have "x = p" using hd_dropWhile [of "\<lambda>q. q \<noteq> p" ports] d by auto
  have "ports = ?b @ p # after" using takeWhile_dropWhile_id [of "\<lambda>q. q \<noteq> p" ports] d \<open>x = p\<close> by simp
  moreover have "p \<notin> set ?b" by (auto dest: set_takeWhileD)
  moreover have "rotated_to p ports = p # after @ ?b" using d \<open>x = p\<close> by (simp add: rotated_to_def)
  ultimately show ?thesis by blast
qed

lemma example_answer_80:
  "report_answer example_host data before ''80'' = Inl refused"
  by (simp add: report_answer_def report_request_def report_url_def example_host_def)

lemma example_answer_81:
  "report_answer example_host data before ''81'' = Inr (JList [JInt 81])"
  by (simp add: report_answer_def report_request_def report_url_def example_host_def response_json_def)

lemma fallback_80_81:
  assumes ports: "DAEMON_PORTS s = [''80'', ''81'', ''82'']"
    and cnt: "10 \<le> DAEMON_FAILED_REPORTS s"
    and a80: "isl (report_answer h (report_data app_id api_key) (sent s) ''80'')"
    and a81: "report_answer h (report_data app_id api_key)
                (sent s @ [report_request (report_data app_id api_key) ''80'']) ''81'' = Inr j"
  shows "fst (get_reports h app_id api_key s) = Inr j \<and>
         DAEMON_PORTS (snd (get_reports h app_id api_key s)) = [''81'', ''82'', ''80'']"
proof -
  let ?data = "report_data app_id api_key"
  from a80 obtain e where e: "report_answer h ?data (sent s) ''80'' = Inl e"
    by (cases "report_answer h ?data (sent s) ''80''") auto
  let ?s1 = "print (''Failed to get reports on: '' @ message e)
                 (s\<lparr>sent := sent s @ [report_request ?data ''80'']\<rparr>)"
  have s1: "sent ?s1 = sent s @ [report_request ?data ''80'']"
    "DAEMON_PORTS ?s1 = [''80'', ''81'', ''82'']"
    using ports by (simp_all add: print_def)
  have "report_answer h ?data (sent ?s1) ''81'' = Inr j" using a81 s1 by simp
  moreover have "''81'' \<in> set (DAEMON_PORTS ?s1)" using s1 by simp
  ultimately obtain s' where s': "get_reports_loop h ?data (''81'' # [''82'']) (Some e) ?s1 = (Inr j, s')"
     "DAEMON_PORTS s' = rotated_to ''81'' (DAEMON_PORTS ?s1)"
    using loop_success [of h ?data ?s1 "''81''" j "[''82'']" "Some e"] by blast
  have "get_reports h app_id api_key s = (Inr j, s')"
    using cnt ports loop_fail [OF e, of "[''81'', ''82'']" None] s'(1)
    by (simp add: get_reports_def Let_def)
  moreover have "DAEMON_PORTS s' = [''81'', ''82'', ''80'']"
    using s'(2) s1(2) by (simp add: rotated_to_def)
  ultimately show ?thesis by simp
qed

section \<open>Port registry: reordering\<close>

text \<open>
  Claim C1, as amended. \<open>reorder_ports\<close> is a left rotation: when \<open>p\<close> is in the
  registry, \<open>p\<close> comes first, followed by the ports that stood after its first occurrence
  and then by the ports that stood before it. The ports before \<open>p\<close> therefore move behind
  those after it. In the fallback of \<open>get_reports\<close> with registry \<open>[80, 81, 82]\<close>, port 80
  failing and port 81 answering, the value returned is the answer of port 81 and the registry
  afterwards is \<open>[81, 82, 80]\<close>.
\<close>

theorem reorder_ports_rotates:
  "(p \<in> set (DAEMON_PORTS s) \<longrightarrow>
      (\<exists>before after. DAEMON_PORTS s = before @ p # after \<and> p \<notin> set before \<and>
         reorder_ports h p s = (Inr (), s\<lparr>DAEMON_PORTS := p # after @ before\<rparr>))) \<and>
   (DAEMON_PORTS s = [''80'', ''81'', ''82''] \<and> 10 \<le> DAEMON_FAILED_REPORTS s \<and>
    isl (report_answer h (report_data app_id api_key) (sent s) ''80'') \<and>
    report_answer h (report_data app_id api_key)
      (sent s @ [report_request (report_data app_id api_key) ''80'']) ''81'' = Inr j \<longrightarrow>
      fst (get_reports h app_id api_key s) = Inr j \<and>
      DAEMON_PORTS (snd (get_reports h app_id api_key s)) = [''81'', ''82'', ''80''])"
proof (intro conjI impI)
  assume p: "p \<in> set (DAEMON_PORTS s)"
  from rotated_to_split [OF p] obtain before after where
    "DAEMON_PORTS s = before @ p # after" "p \<notin> set before"
    "rotated_to p (DAEMON_PORTS s) = p # after @ before" by blast
  then show "\<exists>before after. DAEMON_PORTS s = before @ p # after \<and> p \<notin> set before \<and>
         reorder_ports h p s = (Inr (), s\<lparr>DAEMON_PORTS := p # after @ before\<rparr>)"
    using reorder_ports_present [OF p, of h] by auto
next
  assume a: "DAEMON_PORTS s = [''80'', ''81'', ''82''] \<and> 10 \<le> DAEMON_FAILED_REPORTS s \<and>
    isl (report_answer h (report_data app_id api_key) (sent s) ''80'') \<and>
    report_answer h (report_data app_id api_key)
      (sent s @ [report_request (report_data app_id api_key) ''80'']) ''81'' = Inr j"
  then show "fst (get_reports h app_id api_key s) = Inr j"
    using fallback_80_81 [of s h app_id api_key j] by blast
  from a show "DAEMON_PORTS (snd (get_reports h app_id api_key s)) = [''81'', ''82'', ''80'']"
    using fallback_80_81 [of s h app_id api_key j] by blast
qed

theorem reorder_ports_rotates_witness:
  "''81'' \<in> set (DAEMON_PORTS example_state) \<and>
   reorder_ports example_host ''81'' example_state =
     (Inr (), example_state\<lparr>DAEMON_PORTS := [''81'', ''82'', ''80'']\<rparr>) \<and>
   DAEMON_PORTS example_state = [''80'', ''81'', ''82''] \<and>
   10 \<le> DAEMON_FAILED_REPORTS example_state \<and>
   isl (report_answer example_host (report_data (JInt 4242) ''key'') (sent example_state) ''80'') \<and>
   fst (get_reports example_host (JInt 4242) ''key'' example_state) = Inr (JList [JInt 81]) \<and>
   DAEMON_PORTS (snd (get_reports example_host (JInt 4242) ''key'' example_state))
     = [''81'', ''82'', ''80'']"
proof -
  have mem: "''81'' \<in> set (DAEMON_PORTS example_state)"
    and ports: "DAEMON_PORTS example_state = [''80'', ''81'', ''82'']"
    and cnt: "10 \<le> DAEMON_FAILED_REPORTS example_state"
    by (simp_all add: example_state_def)
  have a80: "isl (report_answer example_host (report_data (JInt 4242) ''key'') (sent example_state) ''80'')"
    by (simp add: example_answer_80)
  have a81: "report_answer example_host (report_data (JInt 4242) ''key'')
      (sent example_state @ [report_request (report_data (JInt 4242) ''key'') ''80'']) ''81''
        = Inr (JList [JInt 81])"
    by (simp add: example_answer_81)
  note inst = reorder_ports_rotates [of "''81''" example_state example_host "JInt 4242" "''key''" "JList [JInt 81]"]
  from inst mem obtain before after where
    ba: "DAEMON_PORTS example_state = before @ ''81'' # after" "''81'' \<notin> set before"
    "reorder_ports example_host ''81'' example_state
       = (Inr (), example_state\<lparr>DAEMON_PORTS := ''81'' # after @ before\<rparr>)" by blast
  have "before = [''80''] \<and> after = [''82'']"
    using ba(1,2) ports by (auto simp: append_eq_Cons_conv Cons_eq_append_conv)
  with ba(3) have r: "reorder_ports example_host ''81'' example_state =
     (Inr (), example_state\<lparr>DAEMON_PORTS := [''81'', ''82'', ''80'']\<rparr>)" by simp
  from inst ports cnt a80 a81
  have "fst (get_reports example_host (JInt 4242) ''key'' example_state) = Inr (JList [JInt 81]) \<and>
   DAEMON_PORTS (snd (get_reports example_host (JInt 4242) ''key'' example_state))
     = [''81'', ''82'', ''80'']" by blast
  with mem r ports cnt a80 show ?thesis by blast
qed

text \<open>
  The claim as first stated asks for \<open>p\<close> followed by the registry without \<open>p\<close> in its
  original order, and for \<open>[81, 80, 82]\<close> after the fallback. Both fail on the registry
  \<open>[80, 81, 82]\<close> with port 81.
\<close>

theorem reorder_ports_keeps_order_counterexample:
  "DAEMON_PORTS (snd (reorder_ports example_host ''81'' example_state))
     \<noteq> ''81'' # remove1 ''81'' (DAEMON_PORTS example_state) \<and>
   DAEMON_PORTS example_state = [''80'', ''81'', ''82''] \<and>
   10 \<le> DAEMON_FAILED_REPORTS example_state \<and>
   isl (fst (request_report example_host (report_url ''80'') (report_data (JInt 4242) ''key'') example_state)) \<and>
   fst (get_reports example_host (JInt 4242) ''key'' example_state) = Inr (JList [JInt 81]) \<and>
   DAEMON_PORTS (snd (get_reports example_host (JInt 4242) ''key'' example_state))
     \<noteq> [''81'', ''80'', ''82'']"
proof -
  have ports: "DAEMON_PORTS example_state = [''80'', ''81'', ''82'']"
    and cnt: "10 \<le> DAEMON_FAILED_REPORTS example_state"
    by (simp_all add: example_state_def)
  have r: "DAEMON_PORTS (snd (reorder_ports example_host ''81'' example_state)) = [''81'', ''82'', ''80'']"
    by (simp add: reorder_ports_def ports)
  have f: "isl (fst (request_report example_host (report_url ''80'') (report_data (JInt 4242) ''key'') example_state))"
    by (simp add: request_report_eq example_answer_80)
  have g: "fst (get_reports example_host (JInt 4242) ''key'' example_state) = Inr (JList [JInt 81]) \<and>
   DAEMON_PORTS (snd (get_reports example_host (JInt 4242) ''key'' example_state))
     = [''81'', ''82'', ''80'']"
    by (rule fallback_80_81 [OF ports cnt]) (simp_all add: example_answer_80 example_answer_81)
  show ?thesis using ports cnt r f g by simp
qed

text \<open>
  Claim C10. For a port that is not in the registry, \<open>reorder_ports\<close> raises the
  \<open>ValueError\<close> of the index lookup and leaves the state, and with it \<open>DAEMON_PORTS\<close>,
  exactly as it was.
\<close>

theorem reorder_ports_absent_atomic:
  "p \<notin> set (DAEMON_PORTS s) \<Longrightarrow>
     \<exists>e. reorder_ports h p s = (Inl e, s) \<and> kind e = ValueError"
  by (simp add: reorder_ports_absent)

theorem reorder_ports_absent_atomic_witness:
  "''83'' \<notin> set (DAEMON_PORTS example_state) \<and>
   (\<exists>e. reorder_ports example_host ''83'' example_state = (Inl e, example_state) \<and> kind e = ValueError)"
proof -
  have a: "''83'' \<notin> set (DAEMON_PORTS example_state)" by (simp add: example_state_def)
  from reorder_ports_absent_atomic [OF a, of example_host] a show ?thesis by blast
qed

section \<open>Fetching reports: the fallback policy\<close>

lemma hd_rotated_to: "p \<in> set ports \<Longrightarrow> hd (rotated_to p ports) = p"
  using rotated_to_split [of p ports] by auto

lemma get_reports_default:
  assumes "DAEMON_FAILED_REPORTS s < 10" "DAEMON_PORTS s = p # ps"
  shows "get_reports h app_id api_key s =
     (report_answer h (report_data app_id api_key) (sent s) p,
      s\<lparr>sent := sent s @ [report_request (report_data app_id api_key) p]\<rparr>)"
  using assms request_report_eq [of h p "report_data app_id api_key" s]
  by (simp add: get_reports_def get_address_def get_port_def report_url_def)

lemma get_reports_fallback:
  assumes "10 \<le> DAEMON_FAILED_REPORTS s"
  shows "get_reports h app_id api_key s =
     get_reports_loop h (report_data app_id api_key) (DAEMON_PORTS s) None s"
  using assms by (simp add: get_reports_def)

text \<open>
  Claim C2, as amended. \<open>get_reports\<close> reads the failure counter and never writes it:
  after every call, returning or raising, \<open>DAEMON_FAILED_REPORTS\<close> is what it was.
  While the counter is below 10, one request goes to the default port, its answer is the
  result (the report, or the exception raised), and the registry is untouched.
  From 10 on, the ports are asked in registry order: the requests sent are those of the
  first \<open>n\<close> ports, all but the last of them failed, and either the last one answered,
  its report is returned and its port has been rotated to the front, or every port failed,
  the registry is unchanged and the exception raised is that of the last port.
\<close>

theorem get_reports_policy:
  assumes run: "get_reports h app_id api_key s = (res, s')"
  shows "DAEMON_FAILED_REPORTS s' = DAEMON_FAILED_REPORTS s \<and>
    (DAEMON_FAILED_REPORTS s < 10 \<longrightarrow>
       (\<forall>p ps. DAEMON_PORTS s = p # ps \<longrightarrow>
          sent s' = sent s @ [report_request (report_data app_id api_key) p] \<and>
          res = report_answer h (report_data app_id api_key) (sent s) p \<and>
          DAEMON_PORTS s' = DAEMON_PORTS s)) \<and>
    (10 \<le> DAEMON_FAILED_REPORTS s \<longrightarrow>
       (\<exists>n\<le>length (DAEMON_PORTS s).
          sent s' = sent s @ map (report_request (report_data app_id api_key)) (take n (DAEMON_PORTS s)) \<and>
          (\<forall>i. Suc i < n \<longrightarrow>
             isl (fallback_answer h (report_data app_id api_key) (sent s) (DAEMON_PORTS s) i)) \<and>
          (case res of
             Inr j \<Rightarrow>
               0 < n \<and>
               fallback_answer h (report_data app_id api_key) (sent s) (DAEMON_PORTS s) (n - 1) = Inr j \<and>
               DAEMON_PORTS s' = rotated_to (DAEMON_PORTS s ! (n - 1)) (DAEMON_PORTS s) \<and>
               hd (DAEMON_PORTS s') = DAEMON_PORTS s ! (n - 1)
           | Inl e \<Rightarrow>
               n = length (DAEMON_PORTS s) \<and>
               DAEMON_PORTS s' = DAEMON_PORTS s \<and>
               (DAEMON_PORTS s \<noteq> [] \<longrightarrow>
                  fallback_answer h (report_data app_id api_key) (sent s) (DAEMON_PORTS s) (n - 1) = Inl e))))"
proof (cases "DAEMON_FAILED_REPORTS s < 10")
  case True
  show ?thesis
  proof (cases "DAEMON_PORTS s")
    case Nil
    then show ?thesis using True run
      by (auto simp: get_reports_def get_address_def get_port_def)
  next
    case (Cons p ps)
    from get_reports_default [OF True Cons, of h app_id api_key] run
    show ?thesis using True Cons by auto
  qed
next
  case False
  then have ge: "10 \<le> DAEMON_FAILED_REPORTS s" by simp
  let ?data = "report_data app_id api_key" and ?ports = "DAEMON_PORTS s"
  have loop: "get_reports_loop h ?data ?ports None s = (res, s')"
    using run get_reports_fallback [OF ge, of h app_id api_key] by simp
  from loop_char [OF subset_refl loop] obtain n where n: "n \<le> length ?ports"
    and tr: "sent s' = sent s @ map (report_request ?data) (take n ?ports)"
    and cnt: "DAEMON_FAILED_REPORTS s' = DAEMON_FAILED_REPORTS s"
    and fails: "\<forall>i. Suc i < n \<longrightarrow> isl (fallback_answer h ?data (sent s) ?ports i)"
    and fin: "(case res of
         Inr j \<Rightarrow> 0 < n \<and> fallback_answer h ?data (sent s) ?ports (n - 1) = Inr j \<and>
                  DAEMON_PORTS s' = rotated_to (?ports ! (n - 1)) ?ports
       | Inl e \<Rightarrow> n = length ?ports \<and> DAEMON_PORTS s' = ?ports \<and>
                  (if ?ports = [] then e = (case None of None \<Rightarrow> raise_None | Some e0 \<Rightarrow> e0)
                   else fallback_answer h ?data (sent s) ?ports (n - 1) = Inl e))"
    by blast
  have fin': "(case res of
             Inr j \<Rightarrow>
               0 < n \<and>
               fallback_answer h ?data (sent s) ?ports (n - 1) = Inr j \<and>
               DAEMON_PORTS s' = rotated_to (?ports ! (n - 1)) ?ports \<and>
               hd (DAEMON_PORTS s') = ?ports ! (n - 1)
           | Inl e \<Rightarrow>
               n = length ?ports \<and>
               DAEMON_PORTS s' = ?ports \<and>
               (?ports \<noteq> [] \<longrightarrow> fallback_answer h ?data (sent s) ?ports (n - 1) = Inl e))"
  proof (cases res)
    case (Inl e)
    then show ?thesis using fin by (auto split: if_splits)
  next
    case (Inr j)
    with fin have f: "0 < n" "fallback_answer h ?data (sent s) ?ports (n - 1) = Inr j"
      "DAEMON_PORTS s' = rotated_to (?ports ! (n - 1)) ?ports" by auto
    have "?ports ! (n - 1) \<in> set ?ports" using f(1) n by simp
    from hd_rotated_to [OF this] f Inr show ?thesis by simp
  qed
  show ?thesis using False cnt n tr fails fin' by blast
qed

theorem get_reports_policy_witness:
  "get_reports example_host (JInt 4242) ''key'' nine_failures =
     (Inl refused, nine_failures\<lparr>sent := [report_request (report_data (JInt 4242) ''key'') ''80'']\<rparr>) \<and>
   DAEMON_FAILED_REPORTS nine_failures < 10 \<and>
   10 \<le> DAEMON_FAILED_REPORTS example_state \<and>
   fst (get_reports example_host (JInt 4242) ''key'' example_state) = Inr (JList [JInt 81]) \<and>
   sent (snd (get_reports example_host (JInt 4242) ''key'' example_state)) =
     map (report_request (report_data (JInt 4242) ''key'')) [''80'', ''81''] \<and>
   DAEMON_FAILED_REPORTS (snd (get_reports example_host (JInt 4242) ''key'' example_state)) = 10"
proof -
  let ?data = "report_data (JInt 4242) ''key''"
  obtain r9 s9 where run9: "get_reports example_host (JInt 4242) ''key'' nine_failures = (r9, s9)"
    by (cases "get_reports example_host (JInt 4242) ''key'' nine_failures")
  have lt: "DAEMON_FAILED_REPORTS nine_failures < 10"
    and p9: "DAEMON_PORTS nine_failures = ''80'' # [''81'', ''82'']"
    and sent9: "sent nine_failures = []"
    by (simp_all add: nine_failures_def example_state_def)
  from get_reports_policy [OF run9] lt p9
  have a: "sent s9 = sent nine_failures @ [report_request ?data ''80'']"
    "r9 = report_answer example_host ?data (sent nine_failures) ''80''"
    "DAEMON_PORTS s9 = DAEMON_PORTS nine_failures"
    "DAEMON_FAILED_REPORTS s9 = DAEMON_FAILED_REPORTS nine_failures"
    by blast+
  have s9: "s9 = nine_failures\<lparr>sent := [report_request ?data ''80'']\<rparr>"
    using run9 get_reports_default [OF lt p9, of example_host "JInt 4242" "''key''"] sent9 by simp
  have first: "get_reports example_host (JInt 4242) ''key'' nine_failures =
     (Inl refused, nine_failures\<lparr>sent := [report_request ?data ''80'']\<rparr>)"
    using run9 a(2) s9 by (simp add: example_answer_80)
  obtain r s' where run: "get_reports example_host (JInt 4242) ''key'' example_state = (r, s')"
    by (cases "get_reports example_host (JInt 4242) ''key'' example_state")
  have ge: "10 \<le> DAEMON_FAILED_REPORTS example_state"
    and ports: "DAEMON_PORTS example_state = [''80'', ''81'', ''82'']"
    and sent0: "sent example_state = []"
    by (simp_all add: example_state_def)
  have r: "r = Inr (JList [JInt 81])"
    using fallback_80_81 [OF ports ge, of example_host "JInt 4242" "''key''" "JList [JInt 81]"] run
    by (simp add: example_answer_80 example_answer_81)
  from get_reports_policy [OF run] ge obtain n where n: "n \<le> length (DAEMON_PORTS example_state)"
    and tr: "sent s' = sent example_state @ map (report_request ?data) (take n (DAEMON_PORTS example_state))"
    and fails: "\<forall>i. Suc i < n \<longrightarrow> isl (fallback_answer example_host ?data (sent example_state) (DAEMON_PORTS example_state) i)"
    and ok: "0 < n" "fallback_answer example_host ?data (sent example_state) (DAEMON_PORTS example_state) (n - 1) = Inr (JList [JInt 81])"
    and cnt: "DAEMON_FAILED_REPORTS s' = DAEMON_FAILED_REPORTS example_state"
    unfolding r by auto
  have n3: "n \<le> 3" using n ports by simp
  have "n \<noteq> 1"
    using ok(2) ports by (auto simp: fallback_answer_def example_answer_80)
  moreover have "n \<noteq> 3"
  proof
    assume "n = 3"
    then have "isl (fallback_answer example_host ?data (sent example_state) (DAEMON_PORTS example_state) 1)"
      using fails by simp
    then show False using ports by (simp add: fallback_answer_def example_answer_81)
  qed
  ultimately have "n = 2" using ok(1) n3 by arith
  then have "sent s' = map (report_request ?data) [''80'', ''81'']"
    using tr ports sent0 by (simp add: numeral_2_eq_2)
  then show ?thesis using first lt ge run r cnt
    by (simp add: example_state_def)
qed

text \<open>
  The claim as first stated has a failed call increment the counter. With the counter at 9
  and the default port refusing, the call raises and the counter is still 9.
\<close>

theorem get_reports_counter_counterexample:
  "DAEMON_FAILED_REPORTS nine_failures = 9 \<and>
   fst (get_reports example_host (JInt 4242) ''key'' nine_failures) = Inl refused \<and>
   DAEMON_FAILED_REPORTS (snd (get_reports example_host (JInt 4242) ''key'' nine_failures)) \<noteq> 10"
proof -
  have lt: "DAEMON_FAILED_REPORTS nine_failures < 10"
    and p9: "DAEMON_PORTS nine_failures = ''80'' # [''81'', ''82'']"
    and c9: "DAEMON_FAILED_REPORTS nine_failures = 9"
    by (simp_all add: nine_failures_def example_state_def)
  show ?thesis
    using c9 by (simp add: get_reports_default [OF lt p9] example_answer_80)
qed

section \<open>Feature requests: what is sent\<close>

lemma daemon_call_sent:
  "sent (snd (daemon_call h v path body tmo prx s)) = sent s @ call_request s v path body tmo prx"
  by (simp add: daemon_call_def get_address_def get_port_def session_send_def call_request_def
      split: list.splits)

lemma json_of_response_snd: "snd (json_of_response r) = snd r"
  by (cases r) (simp add: json_of_response_def split: sum.splits)

lemma bk_log_ports: "DAEMON_PORTS (bk_log l t s) = DAEMON_PORTS s"
  and bk_log_sent: "sent (bk_log l t s) = sent s"
  by (simp_all add: bk_log_def)

lemma call_request_bk_log:
  "call_request (bk_log l t s) v path body tmo prx = call_request s v path body tmo prx"
  by (simp add: call_request_def bk_log_ports)

lemma search_asset_sent:
  "sent (snd (search_asset h d s)) =
     sent s @ call_request s POST ''/search_asset'' (Some (dict_set d ''app_id'' (JInt (getpid h))))
                (Some TIMEOUT) (Some [])"
proof -
  let ?s0 = "bk_log DEBUG ''Starting search request'' s"
  let ?c = "daemon_call h POST ''/search_asset'' (Some (dict_set d ''app_id'' (JInt (getpid h))))
              (Some TIMEOUT) (Some []) ?s0"
  have "sent (snd (search_asset h d s)) = sent (snd ?c)"
    by (cases ?c) (auto simp: search_asset_def Let_def bk_log_sent split: sum.splits)
  then show ?thesis by (simp add: daemon_call_sent bk_log_sent call_request_bk_log)
qed

lemma upload_asset_sent:
  "sent (snd (upload_asset h u e t s)) =
     sent s @ call_request s POST ''/upload_asset''
                (Some [(''app_id'', JInt (getpid h)), (''upload_data'', u),
                       (''export_data'', e), (''upload_set'', t)])
                (Some TIMEOUT) (Some [])"
  by (simp add: upload_asset_def Let_def get_address_def get_port_def call_request_def
      json_of_response_snd session_send_def bk_log_sent split: list.splits)

lemma get_download_url_sent:
  "sent (snd (get_download_url h a sc k s)) =
     sent s @ call_request s GET ''/wrappers/get_download_url''
                (Some [(''app_id'', JInt (getpid h)), (''resolution'', JStr ''blend''),
                       (''asset_data'', a),
                       (''PREFS'', JDict [(''api_key'', k), (''scene_id'', sc)])])
                None None"
proof -
  let ?data = "[(''app_id'', JInt (getpid h)), (''resolution'', JStr ''blend''),
                       (''asset_data'', a),
                       (''PREFS'', JDict [(''api_key'', k), (''scene_id'', sc)])]"
  let ?c = "json_of_response (daemon_call h GET ''/wrappers/get_download_url'' (Some ?data) None None s)"
  have "sent (snd (get_download_url h a sc k s)) = sent (snd ?c)"
    by (cases ?c) (auto simp: get_download_url_def Let_def split: sum.splits)
  then show ?thesis by (simp add: json_of_response_snd daemon_call_sent)
qed

lemma get_reports_sent:
  "\<exists>n\<le>length (DAEMON_PORTS s).
     (DAEMON_PORTS s \<noteq> [] \<longrightarrow> 0 < n) \<and>
     sent (snd (get_reports h a k s)) =
       sent s @ map (report_request (report_data a k)) (take n (DAEMON_PORTS s))"
proof (cases "DAEMON_FAILED_REPORTS s < 10")
  case True
  show ?thesis
  proof (cases "DAEMON_PORTS s")
    case Nil
    then show ?thesis using True by (simp add: get_reports_def get_address_def get_port_def)
  next
    case (Cons p ps)
    have "sent (snd (get_reports h a k s)) =
            sent s @ map (report_request (report_data a k)) (take 1 (DAEMON_PORTS s))"
      using get_reports_default [OF True Cons, of h a k] Cons by simp
    moreover have "(1::nat) \<le> length (DAEMON_PORTS s)" using Cons by simp
    ultimately show ?thesis by (metis zero_less_one)
  qed
next
  case False
  then have ge: "10 \<le> DAEMON_FAILED_REPORTS s" by simp
  obtain res s' where run: "get_reports_loop h (report_data a k) (DAEMON_PORTS s) None s = (res, s')"
    by (cases "get_reports_loop h (report_data a k) (DAEMON_PORTS s) None s")
  from loop_char [OF subset_refl run] obtain n where n: "n \<le> length (DAEMON_PORTS s)"
    and tr: "sent s' = sent s @ map (report_request (report_data a k)) (take n (DAEMON_PORTS s))"
    and fin: "(case res of
         Inr j \<Rightarrow> 0 < n \<and> fallback_answer h (report_data a k) (sent s) (DAEMON_PORTS s) (n - 1) = Inr j \<and>
                  DAEMON_PORTS s' = rotated_to ((DAEMON_PORTS s) ! (n - 1)) (DAEMON_PORTS s)
       | Inl e \<Rightarrow> n = length (DAEMON_PORTS s) \<and> DAEMON_PORTS s' = (DAEMON_PORTS s) \<and>
                  (if (DAEMON_PORTS s) = [] then e = (case None of None \<Rightarrow> raise_None | Some e0 \<Rightarrow> e0)
                   else fallback_answer h (report_data a k) (sent s) (DAEMON_PORTS s) (n - 1) = Inl e))"
    by blast
  have "DAEMON_PORTS s \<noteq> [] \<longrightarrow> 0 < n" using fin by (cases res) auto
  then show ?thesis using n tr run get_reports_fallback [OF ge, of h a k] by auto
qed

lemma requests_of_shape:
  "requests_of h opn s =
     (case opn of
        SearchAsset d \<Rightarrow>
          call_request s POST ''/search_asset'' (Some (dict_set d ''app_id'' (JInt (getpid h))))
            (Some TIMEOUT) (Some [])
      | DownloadAsset d \<Rightarrow>
          call_request s POST ''/download_asset'' (Some (dict_set d ''app_id'' (JInt (getpid h))))
            (Some TIMEOUT) (Some [])
      | UploadAsset u e t \<Rightarrow>
          call_request s POST ''/upload_asset''
            (Some [(''app_id'', JInt (getpid h)), (''upload_data'', u),
                   (''export_data'', e), (''upload_set'', t)])
            (Some TIMEOUT) (Some [])
      | KillDownload t \<Rightarrow>
          call_request s GET ''/kill_download'' (Some [(''task_id'', t)]) (Some TIMEOUT) (Some [])
      | FetchGravatarImage d \<Rightarrow>
          call_request s GET ''/profiles/fetch_gravatar_image''
            (Some (dict_set d ''app_id'' (JInt (getpid h)))) None None
      | GetUserProfile k \<Rightarrow>
          call_request s GET ''/profiles/get_user_profile''
            (Some [(''api_key'', k), (''app_id'', JInt (getpid h))]) None None
      | GetComments a k \<Rightarrow>
          call_request s POST ''/comments/get_comments''
            (Some [(''asset_id'', a), (''api_key'', k), (''app_id'', JInt (getpid h))]) None None
      | CreateComment a c k r \<Rightarrow>
          call_request s POST ''/comments/create_comment''
            (Some [(''asset_id'', a), (''comment_text'', c), (''api_key'', k),
                   (''reply_to_id'', r), (''app_id'', JInt (getpid h))]) None None
      | FeedbackComment a c k f \<Rightarrow>
          call_request s POST ''/comments/feedback_comment''
            (Some [(''asset_id'', a), (''comment_id'', c), (''api_key'', k),
                   (''flag'', f), (''app_id'', JInt (getpid h))]) None None
      | MarkCommentPrivate a c k p \<Rightarrow>
          call_request s POST ''/comments/mark_comment_private''
            (Some [(''asset_id'', a), (''comment_id'', c), (''api_key'', k),
                   (''is_private'', p), (''app_id'', JInt (getpid h))]) None None
      | MarkNotificationRead n \<Rightarrow>
          call_request s POST ''/notifications/mark_notification_read''
            (Some [(''notification_id'', n), (''api_key'', JStr (pref_api_key h)),
                   (''app_id'', JInt (getpid h))]) None None
      | ReportUsages r \<Rightarrow>
          call_request s POST ''/report_usages''
            (Some (dict_set (dict_set r ''api_key'' (JStr (pref_api_key h))) ''app_id''
                     (JInt (getpid h)))) None None
      | SendCodeVerifier c \<Rightarrow>
          call_request s POST ''/code_verifier'' (Some [(''code_verifier'', JStr c)])
            (Some TIMEOUT) (Some [])
      | GetDownloadUrl a sc k \<Rightarrow>
          call_request s GET ''/wrappers/get_download_url''
            (Some [(''app_id'', JInt (getpid h)), (''resolution'', JStr ''blend''),
                   (''asset_data'', a),
                   (''PREFS'', JDict [(''api_key'', k), (''scene_id'', sc)])]) None None
      | RefreshToken t \<Rightarrow>
          call_request s GET ''/refresh_token'' (Some [(''refresh_token'', t)])
            (Some TIMEOUT) (Some [])
      | ReportBlenderQuit \<Rightarrow>
          call_request s GET ''/report_blender_quit'' (Some [(''app_id'', JInt (getpid h))])
            (Some TIMEOUT) (Some [])
      | KillDaemonServer \<Rightarrow> call_request s GET ''/shutdown'' None (Some TIMEOUT) (Some [])
      | GetReports a k \<Rightarrow> requests_of h (GetReports a k) s)"
proof (cases opn)
  case (SearchAsset d)
  then show ?thesis by (simp add: requests_of_def search_asset_sent)
next
  case (DownloadAsset d)
  then show ?thesis
    by (simp add: requests_of_def download_asset_def json_of_response_snd daemon_call_sent)
next
  case (UploadAsset u e t)
  then show ?thesis by (simp add: requests_of_def upload_asset_sent)
next
  case (KillDownload t)
  then show ?thesis by (simp add: requests_of_def kill_download_def daemon_call_sent)
next
  case (FetchGravatarImage d)
  then show ?thesis by (simp add: requests_of_def fetch_gravatar_image_def daemon_call_sent)
next
  case (GetUserProfile k)
  then show ?thesis by (simp add: requests_of_def get_user_profile_def daemon_call_sent)
next
  case (GetComments a k)
  then show ?thesis by (simp add: requests_of_def get_comments_def daemon_call_sent)
next
  case (CreateComment a c k r)
  then show ?thesis by (simp add: requests_of_def create_comment_def daemon_call_sent)
next
  case (FeedbackComment a c k f)
  then show ?thesis by (simp add: requests_of_def feedback_comment_def daemon_call_sent)
next
  case (MarkCommentPrivate a c k p)
  then show ?thesis by (simp add: requests_of_def mark_comment_private_def daemon_call_sent)
next
  case (MarkNotificationRead n)
  then show ?thesis by (simp add: requests_of_def mark_notification_read_def daemon_call_sent)
next
  case (ReportUsages r)
  then show ?thesis by (simp add: requests_of_def report_usages_def Let_def daemon_call_sent)
next
  case (SendCodeVerifier c)
  then show ?thesis by (simp add: requests_of_def send_code_verifier_def daemon_call_sent)
next
  case (GetDownloadUrl a sc k)
  then show ?thesis by (simp add: requests_of_def get_download_url_sent)
next
  case (RefreshToken t)
  then show ?thesis by (simp add: requests_of_def refresh_token_def daemon_call_sent)
next
  case ReportBlenderQuit
  then show ?thesis by (simp add: requests_of_def report_blender_quit_def daemon_call_sent)
next
  case KillDaemonServer
  then show ?thesis by (simp add: requests_of_def kill_daemon_server_def daemon_call_sent)
next
  case (GetReports a k)
  then show ?thesis by simp
qed

lemma map_of_dict_set: "map_of (dict_set d k v) k = Some v"
  by (simp add: dict_set_def update_conv')

lemma call_request_app_id:
  "r \<in> set (call_request s v path body tmo prx) \<Longrightarrow>
     body_app_id r = (case body of None \<Rightarrow> None | Some d \<Rightarrow> dict_get d ''app_id'')"
  by (auto simp: call_request_def body_app_id_def split: list.splits)

lemma call_request_nonempty:
  "DAEMON_PORTS s \<noteq> [] \<Longrightarrow> call_request s v path body tmo prx \<noteq> []"
  by (cases "DAEMON_PORTS s") (simp_all add: call_request_def)

lemma call_request_body:
  "r \<in> set (call_request s v path body tmo prx) \<Longrightarrow> json_body r = body"
  by (auto simp: call_request_def split: list.splits)

lemma get_reports_requests:
  "\<exists>n\<le>length (DAEMON_PORTS s).
     (DAEMON_PORTS s \<noteq> [] \<longrightarrow> 0 < n) \<and>
     requests_of h (GetReports a k) s = map (report_request (report_data a k)) (take n (DAEMON_PORTS s))"
  using get_reports_sent [of s h a k] by (auto simp: requests_of_def)

text \<open>
  Claim C4, as amended. The body of every request sent by \<open>search_asset\<close>,
  \<open>download_asset\<close>, \<open>upload_asset\<close>, \<open>fetch_gravatar_image\<close>, \<open>get_user_profile\<close>,
  the four comment operations, \<open>mark_notification_read\<close>, \<open>report_usages\<close>,
  \<open>get_download_url\<close> and \<open>report_blender_quit\<close> has \<open>app_id\<close> set to the identifier of
  the calling process; \<open>get_reports\<close> sends the \<open>app_id\<close> it was given;
  \<open>kill_download\<close>, \<open>send_code_verifier\<close> and \<open>refresh_token\<close> send a body that holds
  only their own field (\<open>task_id\<close>, \<open>code_verifier\<close>, \<open>refresh_token\<close>), hence no
  \<open>app_id\<close>, and \<open>kill_daemon_server\<close> sends no body at all. With a non-empty registry
  every operation does send a request.
\<close>

theorem feature_requests_app_id:
  "(\<forall>r \<in> set (requests_of h opn s). body_app_id r = expected_app_id h opn) \<and>
   (DAEMON_PORTS s \<noteq> [] \<longrightarrow> requests_of h opn s \<noteq> []) \<and>
   (\<forall>r \<in> set (requests_of h opn s).
      (\<forall>t. opn = KillDownload t \<longrightarrow> json_body r = Some [(''task_id'', t)]) \<and>
      (\<forall>c. opn = SendCodeVerifier c \<longrightarrow> json_body r = Some [(''code_verifier'', JStr c)]) \<and>
      (\<forall>t. opn = RefreshToken t \<longrightarrow> json_body r = Some [(''refresh_token'', t)]) \<and>
      (opn = KillDaemonServer \<longrightarrow> json_body r = None))"
proof -
  have ids: "(\<forall>r \<in> set (requests_of h opn s). body_app_id r = expected_app_id h opn) \<and>
   (DAEMON_PORTS s \<noteq> [] \<longrightarrow> requests_of h opn s \<noteq> [])"
  proof (cases "\<exists>a k. opn = GetReports a k")
    case True
    then obtain a k where opn: "opn = GetReports a k" by blast
    from get_reports_requests [of s h a k] obtain n where
      n: "DAEMON_PORTS s \<noteq> [] \<longrightarrow> 0 < n"
      and rq: "requests_of h (GetReports a k) s = map (report_request (report_data a k)) (take n (DAEMON_PORTS s))"
      by blast
    have "body_app_id (report_request (report_data a k) p) = Some a" for p
      by (simp add: body_app_id_def report_request_def report_data_def dict_get_def)
    then show ?thesis using opn n rq by auto
  next
    case False
    have ne: "DAEMON_PORTS s \<noteq> [] \<longrightarrow> requests_of h opn s \<noteq> []"
      using False requests_of_shape [of h opn s]
      by (cases opn) (simp_all add: call_request_nonempty)
    have "body_app_id r = expected_app_id h opn" if "r \<in> set (requests_of h opn s)" for r
      using that False requests_of_shape [of h opn s]
      by (cases opn) (auto simp: map_of_dict_set dict_get_def dest!: call_request_app_id)
    then show ?thesis using ne by blast
  qed
  have kd: "json_body r = Some [(''task_id'', t)]"
    if "r \<in> set (requests_of h opn s)" "opn = KillDownload t" for r t
    using that requests_of_shape [of h opn s] by (auto dest: call_request_body)
  have cv: "json_body r = Some [(''code_verifier'', JStr c)]"
    if "r \<in> set (requests_of h opn s)" "opn = SendCodeVerifier c" for r c
    using that requests_of_shape [of h opn s] by (auto dest: call_request_body)
  have rt: "json_body r = Some [(''refresh_token'', t)]"
    if "r \<in> set (requests_of h opn s)" "opn = RefreshToken t" for r t
    using that requests_of_shape [of h opn s] by (auto dest: call_request_body)
  have ks: "json_body r = None"
    if "r \<in> set (requests_of h opn s)" "opn = KillDaemonServer" for r
    using that requests_of_shape [of h opn s] by (auto dest: call_request_body)
  from ids kd cv rt ks show ?thesis by blast
qed

lemma example_call_request:
  "call_request example_state v path body tmo prx =
     [\<lparr>verb = v, req_url = ''http://127.0.0.1:80'' @ path, json_body = body,
       timeout = tmo, proxies = prx\<rparr>]"
  by (simp add: call_request_def example_state_def)

theorem feature_requests_app_id_witness:
  "DAEMON_PORTS example_state \<noteq> [] \<and>
   requests_of example_host (GetComments (JStr ''asset'') (JStr ''key'')) example_state \<noteq> [] \<and>
   map body_app_id (requests_of example_host (GetComments (JStr ''asset'') (JStr ''key'')) example_state)
     = [Some (JInt 4242)] \<and>
   map json_body (requests_of example_host (KillDownload (JStr ''task-1'')) example_state)
     = [Some [(''task_id'', JStr ''task-1'')]] \<and>
   map json_body (requests_of example_host (SendCodeVerifier ''abc'') example_state)
     = [Some [(''code_verifier'', JStr ''abc'')]] \<and>
   map json_body (requests_of example_host (RefreshToken (JStr ''tok'')) example_state)
     = [Some [(''refresh_token'', JStr ''tok'')]] \<and>
   map json_body (requests_of example_host KillDaemonServer example_state) = [None]"
proof -
  let ?rs = "requests_of example_host (GetComments (JStr ''asset'') (JStr ''key'')) example_state"
  have ne: "DAEMON_PORTS example_state \<noteq> []" by (simp add: example_state_def)
  have single: "\<exists>x. requests_of example_host opn example_state = [x]"
    if "\<not> (\<exists>a k. opn = GetReports a k)" for opn
    using that requests_of_shape [of example_host opn example_state]
    by (cases opn) (simp_all add: example_call_request)
  note inst = feature_requests_app_id [of example_host "GetComments (JStr ''asset'') (JStr ''key'')" example_state]
  from inst ne have a: "?rs \<noteq> []" by blast
  from inst have b: "\<forall>r\<in>set ?rs. body_app_id r = Some (JInt 4242)"
    by (simp add: example_host_def)
  obtain x where x: "?rs = [x]" using single [of "GetComments (JStr ''asset'') (JStr ''key'')"] by auto
  with b have c: "map body_app_id ?rs = [Some (JInt 4242)]" by simp
  obtain x1 where x1: "requests_of example_host (KillDownload (JStr ''task-1'')) example_state = [x1]"
    using single [of "KillDownload (JStr ''task-1'')"] by auto
  from feature_requests_app_id [of example_host "KillDownload (JStr ''task-1'')" example_state] x1
  have d: "map json_body (requests_of example_host (KillDownload (JStr ''task-1'')) example_state)
     = [Some [(''task_id'', JStr ''task-1'')]]" by simp
  obtain x2 where x2: "requests_of example_host (SendCodeVerifier ''abc'') example_state = [x2]"
    using single [of "SendCodeVerifier ''abc''"] by auto
  from feature_requests_app_id [of example_host "SendCodeVerifier ''abc''" example_state] x2
  have e: "map json_body (requests_of example_host (SendCodeVerifier ''abc'') example_state)
     = [Some [(''code_verifier'', JStr ''abc'')]]" by simp
  obtain x3 where x3: "requests_of example_host (RefreshToken (JStr ''tok'')) example_state = [x3]"
    using single [of "RefreshToken (JStr ''tok'')"] by auto
  from feature_requests_app_id [of example_host "RefreshToken (JStr ''tok'')" example_state] x3
  have f: "map json_body (requests_of example_host (RefreshToken (JStr ''tok'')) example_state)
     = [Some [(''refresh_token'', JStr ''tok'')]]" by simp
  obtain x4 where x4: "requests_of example_host KillDaemonServer example_state = [x4]"
    using single [of KillDaemonServer] by auto
  from feature_requests_app_id [of example_host KillDaemonServer example_state] x4
  have g: "map json_body (requests_of example_host KillDaemonServer example_state) = [None]" by simp
  from ne a c d e f g show ?thesis by blast
qed

text \<open>
  The claim as first stated has every request carry \<open>app_id\<close>. The request of
  \<open>kill_download\<close> has none, and the request of \<open>kill_daemon_server\<close> has no body at all.
\<close>

theorem kill_download_app_id_counterexample:
  "map body_app_id (requests_of example_host (KillDownload (JStr ''task-1'')) example_state) = [None] \<and>
   map json_body (requests_of example_host KillDaemonServer example_state) = [None]"
  using requests_of_shape [of example_host "KillDownload (JStr ''task-1'')" example_state]
    requests_of_shape [of example_host KillDaemonServer example_state]
  by (simp add: example_call_request body_app_id_def dict_get_def)

text \<open>
  Claim C3 asks that every feature request go out with \<open>timeout=TIMEOUT\<close> and
  \<open>proxies={}\<close>. \<open>search_asset\<close> and its siblings do so; \<open>get_comments\<close>,
  \<open>fetch_gravatar_image\<close> and \<open>report_usages\<close> pass neither argument, so their requests
  have no timeout and follow the ambient proxy settings. Evaluated on the concrete
  installation:
\<close>

theorem get_comments_sent_without_timeout:
  "requests_of example_host (GetComments (JStr ''asset'') (JStr ''key'')) example_state =
     [\<lparr>verb = POST, req_url = ''http://127.0.0.1:80/comments/get_comments'',
       json_body = Some [(''asset_id'', JStr ''asset''), (''api_key'', JStr ''key''),
                         (''app_id'', JInt 4242)],
       timeout = None, proxies = None\<rparr>] \<and>
   map timeout (requests_of example_host (FetchGravatarImage []) example_state) = [None] \<and>
   map proxies (requests_of example_host (FetchGravatarImage []) example_state) = [None] \<and>
   map timeout (requests_of example_host (ReportUsages []) example_state) = [None] \<and>
   map proxies (requests_of example_host (ReportUsages []) example_state) = [None] \<and>
   map timeout (requests_of example_host (SearchAsset []) example_state) = [Some TIMEOUT] \<and>
   map proxies (requests_of example_host (SearchAsset []) example_state) = [Some []]"
  using requests_of_shape [of example_host "GetComments (JStr ''asset'') (JStr ''key'')" example_state]
    requests_of_shape [of example_host "FetchGravatarImage []" example_state]
    requests_of_shape [of example_host "ReportUsages []" example_state]
    requests_of_shape [of example_host "SearchAsset []" example_state]
  by (simp add: example_call_request example_host_def)

section \<open>Exit codes of the daemon: the table\<close>

lemma firewall_111:
  "sublist ''firewall'' (exit_code_message h lp 111)"
  by (simp add: exit_code_message_def sublist_Cons_right)

lemma in_use_149:
  "sublist ''in use'' (exit_code_message h lp 149)"
  by (simp add: exit_code_message_def sublist_Cons_right)

lemma exit_code_table_rows:
  "sublist ''unexpected OSError'' (exit_code_message h lp 100)"
  "sublist ''AIOHTTP'' (exit_code_message h lp 101)"
  "sublist ''CERTIFI'' (exit_code_message h lp 102)"
  "sublist ''firewall'' (exit_code_message h lp 113)"
  "sublist ''invalid pointer address'' (exit_code_message h lp 114)"
  "sublist ''IPv4'' (exit_code_message h lp 121)"
  "sublist ''in use'' (exit_code_message h lp 148)"
  by (simp_all add: exit_code_message_def sublist_Cons_right)

lemma unmapped_message:
  "c \<notin> mapped_exit_codes \<Longrightarrow>
     exit_code_message h lp c =
       ''unexpected Exception. Please report a bug and paste content of log '' @ lp"
  by (simp add: exit_code_message_def mapped_exit_codes_def)

lemma unexpected_prefix:
  "sublist ''unexpected'' (''unexpected Exception. Please report a bug and paste content of log '' @ lp)"
  by (rule prefix_imp_sublist) simp

text \<open>
  Claim C5. With a daemon process at hand and a non-empty registry,
  \<open>check_daemon_exit_code\<close> leaves the state alone and returns: for a process that is
  still running, no exit code and the text \<open>Daemon process is running.\<close>; for an exit code
  \<open>c\<close>, the pair of \<open>c\<close> and the message of the table, which contains \<open>firewall\<close> for
  111 (and 113), contains \<open>in use\<close> for 149 (and 148), names the failure for each other row
  of the table, and for every code outside the table is the generic
  \<open>unexpected Exception\<close> message with the path of the log.
\<close>

theorem check_daemon_exit_code_table:
  assumes "daemon_process s = Some pr" and "DAEMON_PORTS s = port # ps"
  shows "(returncode pr = None \<longrightarrow>
            check_daemon_exit_code h s = (Inr (None, ''Daemon process is running.''), s)) \<and>
         (\<forall>c. returncode pr = Some c \<longrightarrow>
            (\<exists>msg. check_daemon_exit_code h s = (Inr (Some c, msg), s) \<and>
               msg = exit_code_message h
                       (get_daemon_directory_path h @ ''/daemon-'' @ port @ ''.log'') c \<and>
               (c = 100 \<longrightarrow> sublist ''unexpected OSError'' msg) \<and>
               (c = 101 \<longrightarrow> sublist ''AIOHTTP'' msg) \<and>
               (c = 102 \<longrightarrow> sublist ''CERTIFI'' msg) \<and>
               (c = 111 \<longrightarrow> sublist ''firewall'' msg) \<and>
               (c = 113 \<longrightarrow> sublist ''firewall'' msg) \<and>
               (c = 114 \<longrightarrow> sublist ''invalid pointer address'' msg) \<and>
               (c = 121 \<longrightarrow> sublist ''IPv4'' msg) \<and>
               (c = 148 \<longrightarrow> sublist ''in use'' msg) \<and>
               (c = 149 \<longrightarrow> sublist ''in use'' msg) \<and>
               (c \<notin> mapped_exit_codes \<longrightarrow>
                  sublist ''unexpected'' msg \<and>
                  msg = ''unexpected Exception. Please report a bug and paste content of log ''
                        @ get_daemon_directory_path h @ ''/daemon-'' @ port @ ''.log'')))"
proof (intro conjI allI impI)
  assume "returncode pr = None"
  then show "check_daemon_exit_code h s = (Inr (None, ''Daemon process is running.''), s)"
    using assms by (simp add: check_daemon_exit_code_def)
next
  fix c assume c: "returncode pr = Some c"
  let ?lp = "get_daemon_directory_path h @ ''/daemon-'' @ port @ ''.log''"
  have run: "check_daemon_exit_code h s = (Inr (Some c, exit_code_message h ?lp c), s)"
    using assms c by (simp add: check_daemon_exit_code_def get_port_def)
  have "c = 111 \<longrightarrow> sublist ''firewall'' (exit_code_message h ?lp c)"
    using firewall_111 by blast
  moreover have "c = 149 \<longrightarrow> sublist ''in use'' (exit_code_message h ?lp c)"
    using in_use_149 by blast
  moreover have "c = 100 \<longrightarrow> sublist ''unexpected OSError'' (exit_code_message h ?lp c)"
    and "c = 101 \<longrightarrow> sublist ''AIOHTTP'' (exit_code_message h ?lp c)"
    and "c = 102 \<longrightarrow> sublist ''CERTIFI'' (exit_code_message h ?lp c)"
    and "c = 113 \<longrightarrow> sublist ''firewall'' (exit_code_message h ?lp c)"
    and "c = 114 \<longrightarrow> sublist ''invalid pointer address'' (exit_code_message h ?lp c)"
    and "c = 121 \<longrightarrow> sublist ''IPv4'' (exit_code_message h ?lp c)"
    and "c = 148 \<longrightarrow> sublist ''in use'' (exit_code_message h ?lp c)"
    using exit_code_table_rows [of h ?lp] by blast+
  moreover have "c \<notin> mapped_exit_codes \<longrightarrow>
      sublist ''unexpected'' (exit_code_message h ?lp c) \<and>
      exit_code_message h ?lp c =
        ''unexpected Exception. Please report a bug and paste content of log '' @ ?lp"
    using unmapped_message [of c h ?lp] unexpected_prefix [of ?lp] by simp
  ultimately show "\<exists>msg. check_daemon_exit_code h s = (Inr (Some c, msg), s) \<and>
               msg = exit_code_message h ?lp c \<and>
               (c = 100 \<longrightarrow> sublist ''unexpected OSError'' msg) \<and>
               (c = 101 \<longrightarrow> sublist ''AIOHTTP'' msg) \<and>
               (c = 102 \<longrightarrow> sublist ''CERTIFI'' msg) \<and>
               (c = 111 \<longrightarrow> sublist ''firewall'' msg) \<and>
               (c = 113 \<longrightarrow> sublist ''firewall'' msg) \<and>
               (c = 114 \<longrightarrow> sublist ''invalid pointer address'' msg) \<and>
               (c = 121 \<longrightarrow> sublist ''IPv4'' msg) \<and>
               (c = 148 \<longrightarrow> sublist ''in use'' msg) \<and>
               (c = 149 \<longrightarrow> sublist ''in use'' msg) \<and>
               (c \<notin> mapped_exit_codes \<longrightarrow>
                  sublist ''unexpected'' msg \<and>
                  msg = ''unexpected Exception. Please report a bug and paste content of log ''
                        @ get_daemon_directory_path h @ ''/daemon-'' @ port @ ''.log'')"
    using run by simp
qed

theorem check_daemon_exit_code_table_witness:
  "check_daemon_exit_code example_host (exited_with None)
     = (Inr (None, ''Daemon process is running.''), exited_with None) \<and>
   (\<exists>msg. check_daemon_exit_code example_host (exited_with (Some 111))
            = (Inr (Some 111, msg), exited_with (Some 111)) \<and> sublist ''firewall'' msg) \<and>
   (\<exists>msg. check_daemon_exit_code example_host (exited_with (Some 149))
            = (Inr (Some 149, msg), exited_with (Some 149)) \<and> sublist ''in use'' msg) \<and>
   37 \<notin> mapped_exit_codes \<and>
   check_daemon_exit_code example_host (exited_with (Some 37))
     = (Inr (Some 37,
             ''unexpected Exception. Please report a bug and paste content of log ''
             @ ''/home/user/blenderkit_data/daemon/daemon-80.log''), exited_with (Some 37))"
proof -
  have pr: "daemon_process (exited_with c) = Some \<lparr>pid = 777, returncode = c\<rparr>"
    and ports: "DAEMON_PORTS (exited_with c) = ''80'' # [''81'', ''82'']" for c
    by (simp_all add: exited_with_def example_state_def)
  have dir: "get_daemon_directory_path example_host = ''/home/user/blenderkit_data/daemon''"
    by (simp add: get_daemon_directory_path_def example_host_def)
  have un: "37 \<notin> mapped_exit_codes" by (simp add: mapped_exit_codes_def)
  from check_daemon_exit_code_table [OF pr ports, of None example_host]
  have a: "check_daemon_exit_code example_host (exited_with None)
     = (Inr (None, ''Daemon process is running.''), exited_with None)" by simp
  from check_daemon_exit_code_table [OF pr ports, of "Some 111" example_host]
  have b: "\<exists>msg. check_daemon_exit_code example_host (exited_with (Some 111))
            = (Inr (Some 111, msg), exited_with (Some 111)) \<and> sublist ''firewall'' msg" by simp
  from check_daemon_exit_code_table [OF pr ports, of "Some 149" example_host]
  have c: "\<exists>msg. check_daemon_exit_code example_host (exited_with (Some 149))
            = (Inr (Some 149, msg), exited_with (Some 149)) \<and> sublist ''in use'' msg" by simp
  from check_daemon_exit_code_table [OF pr ports, of "Some 37" example_host] un
  have d: "check_daemon_exit_code example_host (exited_with (Some 37))
     = (Inr (Some 37,
             ''unexpected Exception. Please report a bug and paste content of log ''
             @ ''/home/user/blenderkit_data/daemon/daemon-80.log''), exited_with (Some 37))"
    by (simp add: dir)
  from a b c un d show ?thesis by blast
qed

section \<open>Health probe: the three outcomes\<close>

lemma daemon_is_alive_eq:
  assumes "DAEMON_PORTS s = p # ps"
  shows "fst (daemon_is_alive h s) =
     (case network h (sent s) (probe_request p) of
        Inr resp \<Rightarrow>
          if status_code resp \<noteq> 200
          then Inr (False, ''Server response not 200: '' @ str_int (status_code resp))
          else Inr (True, ''Server alive, PID: '' @ resp_text resp)
      | Inl err \<Rightarrow>
          if is_ConnectionError err
          then Inr (False, ''EXCEPTION OCCURED:'' @ [CHR 0x22] @ '', '' @ message err @ '', ''
                           @ type_repr err)
          else Inl err)"
  using assms
  by (simp add: daemon_is_alive_def get_address_def get_port_def session_send_def probe_request_def
      split: sum.splits)

text \<open>
  Claim C6. With a non-empty registry, \<open>daemon_is_alive\<close> sends one request to the default
  address. An answer with status 200 gives \<open>True\<close> and a message that contains the body of
  the answer (the process identifier the daemon reports); an answer with any other status
  gives \<open>False\<close> and a message that contains the status code; a \<open>ConnectionError\<close> gives
  \<open>False\<close> and a message that contains the text of the error, and nothing is raised; any
  other exception of the request is raised to the caller. The result is \<open>True\<close> exactly when
  the answer has status 200.
\<close>

theorem daemon_is_alive_cases:
  assumes "DAEMON_PORTS s = p # ps"
  shows "(\<forall>resp. network h (sent s) (probe_request p) = Inr resp \<longrightarrow>
            (if status_code resp = 200
             then \<exists>msg. fst (daemon_is_alive h s) = Inr (True, msg) \<and> sublist (resp_text resp) msg
             else \<exists>msg. fst (daemon_is_alive h s) = Inr (False, msg) \<and>
                        sublist (str_int (status_code resp)) msg)) \<and>
         (\<forall>err. network h (sent s) (probe_request p) = Inl err \<longrightarrow>
            (if is_ConnectionError err
             then \<exists>msg. fst (daemon_is_alive h s) = Inr (False, msg) \<and> sublist (message err) msg
             else fst (daemon_is_alive h s) = Inl err)) \<and>
         ((\<exists>msg. fst (daemon_is_alive h s) = Inr (True, msg)) \<longleftrightarrow>
            (\<exists>resp. network h (sent s) (probe_request p) = Inr resp \<and> status_code resp = 200))"
proof (intro conjI allI impI)
  fix resp assume r: "network h (sent s) (probe_request p) = Inr resp"
  show "if status_code resp = 200
        then \<exists>msg. fst (daemon_is_alive h s) = Inr (True, msg) \<and> sublist (resp_text resp) msg
        else \<exists>msg. fst (daemon_is_alive h s) = Inr (False, msg) \<and>
                   sublist (str_int (status_code resp)) msg"
    using sublist_append_leftI [of "resp_text resp" "''Server alive, PID: ''"]
      sublist_append_leftI [of "str_int (status_code resp)" "''Server response not 200: ''"]
    by (simp add: daemon_is_alive_eq [OF assms] r)
next
  fix err assume e: "network h (sent s) (probe_request p) = Inl err"
  have "sublist (message err)
          ((''EXCEPTION OCCURED:'' @ [CHR 0x22] @ '', '') @ message err @ ('', '' @ type_repr err))"
    by (rule sublist_appendI)
  then show "if is_ConnectionError err
        then \<exists>msg. fst (daemon_is_alive h s) = Inr (False, msg) \<and> sublist (message err) msg
        else fst (daemon_is_alive h s) = Inl err"
    by (simp add: daemon_is_alive_eq [OF assms] e)
next
  show "(\<exists>msg. fst (daemon_is_alive h s) = Inr (True, msg)) \<longleftrightarrow>
        (\<exists>resp. network h (sent s) (probe_request p) = Inr resp \<and> status_code resp = 200)"
    by (cases "network h (sent s) (probe_request p)")
       (auto simp: daemon_is_alive_eq [OF assms])
qed

theorem daemon_is_alive_cases_witness:
  "(\<exists>msg. fst (daemon_is_alive example_host (example_state\<lparr>DAEMON_PORTS := [''81'', ''82'', ''80'']\<rparr>))
            = Inr (True, msg) \<and> sublist ''[81]'' msg) \<and>
   (\<exists>msg. fst (daemon_is_alive unavailable_host example_state) = Inr (False, msg) \<and>
           sublist (str_int 503) msg) \<and>
   (\<exists>msg. fst (daemon_is_alive example_host example_state) = Inr (False, msg) \<and>
           sublist ''Connection refused'' msg) \<and>
   fst (daemon_is_alive timing_out_host example_state)
     = Inl (Exn RequestException ''requests.exceptions.ReadTimeout'' ''Read timed out.'')"
proof -
  let ?s81 = "example_state\<lparr>DAEMON_PORTS := [''81'', ''82'', ''80'']\<rparr>"
  have p81: "DAEMON_PORTS ?s81 = ''81'' # [''82'', ''80'']" by simp
  have p80: "DAEMON_PORTS example_state = ''80'' # [''81'', ''82'']"
    by (simp add: example_state_def)
  have n81: "network example_host (sent ?s81) (probe_request ''81'')
      = Inr \<lparr>status_code = 200, resp_text = ''[81]'', resp_json = Some (JList [JInt 81])\<rparr>"
    by (simp add: example_host_def probe_request_def)
  have n503: "network unavailable_host (sent example_state) (probe_request ''80'')
      = Inr \<lparr>status_code = 503, resp_text = ''Service Unavailable'', resp_json = None\<rparr>"
    by (simp add: unavailable_host_def)
  have n80: "network example_host (sent example_state) (probe_request ''80'') = Inl refused"
    by (simp add: example_host_def probe_request_def)
  have nto: "network timing_out_host (sent example_state) (probe_request ''80'')
      = Inl (Exn RequestException ''requests.exceptions.ReadTimeout'' ''Read timed out.'')"
    by (simp add: timing_out_host_def)
  from daemon_is_alive_cases [OF p81, of example_host] n81
  have a: "\<exists>msg. fst (daemon_is_alive example_host ?s81) = Inr (True, msg) \<and> sublist ''[81]'' msg"
    by fastforce
  from daemon_is_alive_cases [OF p80, of unavailable_host] n503
  have b: "\<exists>msg. fst (daemon_is_alive unavailable_host example_state) = Inr (False, msg) \<and>
           sublist (str_int 503) msg"
    by fastforce
  from daemon_is_alive_cases [OF p80, of example_host] n80
  have c: "\<exists>msg. fst (daemon_is_alive example_host example_state) = Inr (False, msg) \<and>
           sublist ''Connection refused'' msg"
    by (fastforce simp: refused_def)
  from daemon_is_alive_cases [OF p80, of timing_out_host] nto
  have d: "fst (daemon_is_alive timing_out_host example_state)
     = Inl (Exn RequestException ''requests.exceptions.ReadTimeout'' ''Read timed out.'')"
    by fastforce
  from a b c d show ?thesis by blast
qed

section \<open>Status notifier: notices on transitions only\<close>

text \<open>Integers are formatted in decimal.\<close>

lemma str_int_503: "str_int 503 = ''503''"
  by (simp add: str_int_def str_nat.simps digit_char_def)
lemma str_int_m7: "str_int (-7) = ''-7''" 
  by (simp add: str_int_def str_nat.simps digit_char_def)
lemma str_int_big: "str_int 230101 = ''230101''"
  by (simp add: str_int_def str_nat.simps digit_char_def)

lemma handle_online:
  assumes "dict_get (task_result t) ''online_status'' = Some st" "st = JInt 200"
  shows "handle_daemon_status_task h t s =
     (Inr (),
      if DAEMON_ONLINE s then s
      else s\<lparr>reports := reports s @
                 [\<lparr>report_text = ''Connected to '' @ urlparse_netloc h (SERVER s),
                   report_timeout = None, report_type = None\<rparr>],
              logo_status := ''logo'', DAEMON_ONLINE := True\<rparr>)"
  using assms by (simp add: handle_daemon_status_task_def add_report_def)

lemma handle_offline:
  assumes "dict_get (task_result t) ''online_status'' = Some st" "st \<noteq> JInt 200"
  shows "handle_daemon_status_task h t s =
     (Inr (),
      if DAEMON_ONLINE s
      then s\<lparr>reports := reports s @
                 [\<lparr>report_text =
                      (if st = JInt 429 then ''API limit exceeded for '' else ''Disconnected from '')
                      @ urlparse_netloc h (SERVER s),
                   report_timeout = Some 10, report_type = Some ''ERROR''\<rparr>],
              logo_status := ''logo_offline'', DAEMON_ONLINE := False\<rparr>
      else s)"
  using assms by (simp add: handle_daemon_status_task_def add_report_def Let_def)

lemma handle_flag:
  assumes "dict_get (task_result t) ''online_status'' = Some st"
  shows "DAEMON_ONLINE (snd (handle_daemon_status_task h t s)) \<longleftrightarrow> st = JInt 200"
  using handle_online [OF assms, of h s] handle_offline [OF assms, of h s]
  by (cases "st = JInt 200") simp_all

text \<open>
  Claim C7. For a task whose result holds an \<open>online_status\<close>:
  with the flag \<open>DAEMON_ONLINE\<close> false and status 200, exactly one \<open>Connected\<close> notice
  is added and the flag becomes true; with the flag true and a status other than 200,
  exactly one notice is added, \<open>API limit exceeded\<close> for status 429 and
  \<open>Disconnected\<close> otherwise, and the flag becomes false; when the flag already agrees
  with the status, nothing changes at all; and a second probe that reports the same state
  as the one before it (200 both times, or not 200 both times) adds no notice.
\<close>

theorem status_notifier_transitions:
  assumes "dict_get (task_result t) ''online_status'' = Some st"
  shows "(\<not> DAEMON_ONLINE s \<and> st = JInt 200 \<longrightarrow>
            fst (handle_daemon_status_task h t s) = Inr () \<and>
            notices_of h t s =
              [\<lparr>report_text = ''Connected to '' @ urlparse_netloc h (SERVER s),
                report_timeout = None, report_type = None\<rparr>] \<and>
            DAEMON_ONLINE (snd (handle_daemon_status_task h t s))) \<and>
         (DAEMON_ONLINE s \<and> st \<noteq> JInt 200 \<longrightarrow>
            fst (handle_daemon_status_task h t s) = Inr () \<and>
            notices_of h t s =
              [\<lparr>report_text =
                   (if st = JInt 429 then ''API limit exceeded for '' else ''Disconnected from '')
                   @ urlparse_netloc h (SERVER s),
                report_timeout = Some 10, report_type = Some ''ERROR''\<rparr>] \<and>
            \<not> DAEMON_ONLINE (snd (handle_daemon_status_task h t s))) \<and>
         ((DAEMON_ONLINE s \<longleftrightarrow> st = JInt 200) \<longrightarrow>
            handle_daemon_status_task h t s = (Inr (), s) \<and> notices_of h t s = []) \<and>
         (\<forall>t2 st2. dict_get (task_result t2) ''online_status'' = Some st2 \<and>
                    (st2 = JInt 200 \<longleftrightarrow> st = JInt 200) \<longrightarrow>
            notices_of h t2 (snd (handle_daemon_status_task h t s)) = [])"
proof -
  have up: "\<not> DAEMON_ONLINE s \<and> st = JInt 200 \<longrightarrow>
            fst (handle_daemon_status_task h t s) = Inr () \<and>
            notices_of h t s =
              [\<lparr>report_text = ''Connected to '' @ urlparse_netloc h (SERVER s),
                report_timeout = None, report_type = None\<rparr>] \<and>
            DAEMON_ONLINE (snd (handle_daemon_status_task h t s))"
    using handle_online [OF assms, of h s] by (simp add: notices_of_def)
  have down: "DAEMON_ONLINE s \<and> st \<noteq> JInt 200 \<longrightarrow>
            fst (handle_daemon_status_task h t s) = Inr () \<and>
            notices_of h t s =
              [\<lparr>report_text =
                   (if st = JInt 429 then ''API limit exceeded for '' else ''Disconnected from '')
                   @ urlparse_netloc h (SERVER s),
                report_timeout = Some 10, report_type = Some ''ERROR''\<rparr>] \<and>
            \<not> DAEMON_ONLINE (snd (handle_daemon_status_task h t s))"
    using handle_offline [OF assms, of h s] by (simp add: notices_of_def)
  have same: "(DAEMON_ONLINE s \<longleftrightarrow> st = JInt 200) \<longrightarrow>
            handle_daemon_status_task h t s = (Inr (), s) \<and> notices_of h t s = []"
    using handle_online [OF assms, of h s] handle_offline [OF assms, of h s]
    by (cases "st = JInt 200") (simp_all add: notices_of_def)
  have again: "notices_of h t2 (snd (handle_daemon_status_task h t s)) = []"
    if a: "dict_get (task_result t2) ''online_status'' = Some st2 \<and>
           (st2 = JInt 200 \<longleftrightarrow> st = JInt 200)" for t2 st2
  proof -
    let ?s1 = "snd (handle_daemon_status_task h t s)"
    have flag: "DAEMON_ONLINE ?s1 \<longleftrightarrow> st2 = JInt 200"
      using handle_flag [OF assms, of h s] a by simp
    from a have st2: "dict_get (task_result t2) ''online_status'' = Some st2" by simp
    show ?thesis
    proof (cases "st2 = JInt 200")
      case True
      then show ?thesis using flag handle_online [OF st2 True, of h ?s1]
        by (simp add: notices_of_def)
    next
      case False
      then show ?thesis using flag handle_offline [OF st2 False, of h ?s1]
        by (simp add: notices_of_def)
    qed
  qed
  from up down same again show ?thesis by blast
qed

theorem status_notifier_transitions_witness:
  "\<not> DAEMON_ONLINE example_state \<and>
   notices_of example_host (status_task 200) example_state
     = [\<lparr>report_text = ''Connected to www.blenderkit.com'',
         report_timeout = None, report_type = None\<rparr>] \<and>
   notices_of example_host (status_task 200)
     (snd (handle_daemon_status_task example_host (status_task 200) example_state)) = [] \<and>
   notices_of example_host (status_task 429)
     (snd (handle_daemon_status_task example_host (status_task 200) example_state))
     = [\<lparr>report_text = ''API limit exceeded for www.blenderkit.com'',
         report_timeout = Some 10, report_type = Some ''ERROR''\<rparr>] \<and>
   handle_daemon_status_task example_host (status_task 500) example_state = (Inr (), example_state)"
proof -
  have st: "dict_get (task_result (status_task c)) ''online_status'' = Some (JInt c)" for c
    by (simp add: status_task_def dict_get_def)
  have off: "\<not> DAEMON_ONLINE example_state" by (simp add: example_state_def)
  have nl: "urlparse_netloc example_host (SERVER example_state) = ''www.blenderkit.com''"
    by (simp add: example_host_def example_state_def)
  let ?s1 = "snd (handle_daemon_status_task example_host (status_task 200) example_state)"
  from status_notifier_transitions [OF st, of example_state 200 example_host] off
  have a: "notices_of example_host (status_task 200) example_state
     = [\<lparr>report_text = ''Connected to www.blenderkit.com'',
         report_timeout = None, report_type = None\<rparr>]"
    and on1: "DAEMON_ONLINE ?s1"
    by (simp_all add: nl)
  from status_notifier_transitions [OF st, of example_state 200 example_host] st [of 200]
  have b: "notices_of example_host (status_task 200) ?s1 = []" by blast
  have srv: "SERVER ?s1 = SERVER example_state"
    using off handle_online [OF st, of 200 example_host example_state] by simp
  from status_notifier_transitions [OF st, of ?s1 429 example_host] on1
  have c: "notices_of example_host (status_task 429) ?s1
     = [\<lparr>report_text = ''API limit exceeded for www.blenderkit.com'',
         report_timeout = Some 10, report_type = Some ''ERROR''\<rparr>]"
    by (simp add: srv nl)
  from status_notifier_transitions [OF st, of example_state 500 example_host] off
  have d: "handle_daemon_status_task example_host (status_task 500) example_state = (Inr (), example_state)"
    by simp
  from off a b c d show ?thesis by blast
qed

section \<open>Starting the daemon: failures and the interpreter check\<close>

lemma try_spawn_bk_log:
  "try_spawn h lp env fl (bk_log l t s) = try_spawn h lp env fl s"
  by (simp add: try_spawn_def bk_log_def get_port_def version_string_def
      split: option.splits sum.splits list.splits)

lemma spawn_failed_eq:
  "spawn_failed h (get_daemon_directory_path h) e s =
     (Inl e, add_report (failure_report_text h e) (Some 10) (Some ''ERROR'') s)"
  by (simp add: spawn_failed_def failure_report_text_def)

lemma start_daemon_server_unfold:
  assumes "get_port s = Inr port" "build_env h = Inr (env, flags)"
    "subprocess_run h [sys_executable h, ''--version''] env = Inr chk"
  shows "start_daemon_server h s =
     (let s1 = (if cp_returncode chk \<noteq> 0
                then bk_log WARNING (python_check_warning h chk env) s else s)
      in case try_spawn h (log_path_of h port) env flags s of
           Inl e \<Rightarrow> spawn_failed h (get_daemon_directory_path h) e s1
         | Inr pr \<Rightarrow>
             (if cp_returncode chk = 0 then
                (Inr (),
                 bk_log INFO
                   (''Daemon server starting on address '' @ ''http://127.0.0.1:'' @ port
                    @ '', log file for errors located at: '' @ log_path_of h port)
                   (s1\<lparr>daemon_process := Some pr\<rparr>))
              else
                (Inr (),
                 add_report
                   (''Due to unsuccessful Python check the daemon server will ''
                    @ ''probably fail to run. Please report a bug at BlenderKit.'')
                   (Some 5) (Some ''ERROR'')
                   (bk_log WARNING
                      (''Tried to start daemon server on address '' @ ''http://127.0.0.1:'' @ port
                       @ '', PID: '' @ str_int (pid pr) @ '','' @ [CHR 0x0A]
                       @ ''log file located at: '' @ log_path_of h port)
                      (s1\<lparr>daemon_process := Some pr\<rparr>)))))"
  using assms
  by (auto simp add: start_daemon_server_def Let_def log_path_of_def try_spawn_bk_log
      split: sum.splits)

text \<open>
  Claim C8. Once the environment is built and the interpreter check has run, every failure
  of the spawn (the body of the \<open>try\<close>: opening the log file, building the argument list,
  starting the child) ends in the same way: \<open>start_daemon_server\<close> raises that very
  exception, exactly one report of type \<open>ERROR\<close> with timeout 10 has been added, with the
  text of the matching \<open>except\<close> clause (write access denied; blocked from starting for
  \<open>winerror\<close> 87 on Windows; the text of any other \<open>OSError\<close>; the generic text for any
  other exception), and no process handle has been stored.
\<close>

theorem spawn_failure_reported_and_raised:
  assumes "get_port s = Inr port" and "build_env h = Inr (env, flags)"
    and "subprocess_run h [sys_executable h, ''--version''] env = Inr chk"
    and "try_spawn h (log_path_of h port) env flags s = Inl e"
  shows "fst (start_daemon_server h s) = Inl e \<and>
         reports (snd (start_daemon_server h s)) =
           reports s @ [\<lparr>report_text = failure_report_text h e,
                          report_timeout = Some 10, report_type = Some ''ERROR''\<rparr>] \<and>
         daemon_process (snd (start_daemon_server h s)) = daemon_process s"
  using assms(4)
  by (simp add: start_daemon_server_unfold [OF assms(1-3)] spawn_failed_eq add_report_def
      bk_log_def Let_def)

lemma example_port: "get_port example_state = Inr ''80''"
  by (simp add: get_port_def example_state_def)

lemma example_version: "version_string example_state = Inr ''3.4.0.230101''"
  by (simp add: version_string_def example_state_def str_int_def str_nat.simps digit_char_def)

theorem spawn_failure_reported_and_raised_witness:
  "fst (start_daemon_server read_only_host example_state)
     = Inl (Exn PermissionError ''PermissionError'' ''[Errno 13] Permission denied'') \<and>
   reports (snd (start_daemon_server read_only_host example_state))
     = [\<lparr>report_text = ''FATAL ERROR: Write access denied to /home/user/blenderkit_data/daemon''
                        @ ''. Check you have write permissions to the directory.'',
         report_timeout = Some 10, report_type = Some ''ERROR''\<rparr>] \<and>
   fst (start_daemon_server blocked_windows_host example_state)
     = Inl (Exn (OSError (Some 87)) ''OSError'' ''[WinError 87] The parameter is incorrect'') \<and>
   reports (snd (start_daemon_server blocked_windows_host example_state))
     = [\<lparr>report_text = ''FATAL ERROR: Daemon server blocked from starting. ''
                        @ ''Please check your antivirus or firewall. Error: ''
                        @ ''[WinError 87] The parameter is incorrect'',
         report_timeout = Some 10, report_type = Some ''ERROR''\<rparr>]"
proof -
  let ?perm = "Exn PermissionError ''PermissionError'' ''[Errno 13] Permission denied''"
  let ?e87 = "Exn (OSError (Some 87)) ''OSError'' ''[WinError 87] The parameter is incorrect''"
  obtain env1 fl1 where b1: "build_env read_only_host = Inr (env1, fl1)"
    by (simp add: build_env_def read_only_host_def example_host_def)
  obtain chk1 where c1:
    "subprocess_run read_only_host [sys_executable read_only_host, ''--version''] env1 = Inr chk1"
    by (simp add: read_only_host_def example_host_def)
  have t1: "try_spawn read_only_host (log_path_of read_only_host ''80'') env1 fl1 example_state
              = Inl ?perm"
    by (simp add: try_spawn_def read_only_host_def)
  have r0: "reports example_state = []" by (simp add: example_state_def)
  have f1: "failure_report_text read_only_host ?perm =
      ''FATAL ERROR: Write access denied to /home/user/blenderkit_data/daemon''
      @ ''. Check you have write permissions to the directory.''"
    by (simp add: failure_report_text_def get_daemon_directory_path_def read_only_host_def
        example_host_def)
  obtain env2 fl2 where b2: "build_env blocked_windows_host = Inr (env2, fl2)"
    by (simp add: build_env_def blocked_windows_host_def example_host_def)
  obtain chk2 where c2:
    "subprocess_run blocked_windows_host [sys_executable blocked_windows_host, ''--version''] env2
       = Inr chk2"
    by (simp add: blocked_windows_host_def example_host_def)
  have t2: "try_spawn blocked_windows_host (log_path_of blocked_windows_host ''80'') env2 fl2
              example_state = Inl ?e87"
    by (simp add: try_spawn_def example_port example_version blocked_windows_host_def
        example_host_def)
  have f2: "failure_report_text blocked_windows_host ?e87 =
      ''FATAL ERROR: Daemon server blocked from starting. ''
      @ ''Please check your antivirus or firewall. Error: ''
      @ ''[WinError 87] The parameter is incorrect''"
    by (simp add: failure_report_text_def blocked_windows_host_def)
  from spawn_failure_reported_and_raised [OF example_port b1 c1 t1]
    spawn_failure_reported_and_raised [OF example_port b2 c2 t2]
  show ?thesis by (simp add: r0 f1 f2)
qed

lemma try_spawn_cases:
  assumes "get_port s = Inr port"
  shows "try_spawn h lp env fl s =
     (case open_log h lp of
        Some e \<Rightarrow> Inl e
      | None \<Rightarrow>
          (case version_string s of
             Inl e \<Rightarrow> Inl e
           | Inr v \<Rightarrow>
               popen h
                 \<lparr>popen_log_path = lp,
                  popen_args =
                    [Some (sys_executable h),
                     Some ''-u'', Some (daemon_path h),
                     Some ''--port'', Some port,
                     Some ''--server'', Some (SERVER s),
                     Some ''--proxy_which'', PREFS s ''proxy_which'',
                     Some ''--proxy_address'', PREFS s ''proxy_address'',
                     Some ''--proxy_ca_certs'', PREFS s ''proxy_ca_certs'',
                     Some ''--ip_version'', PREFS s ''ip_version'',
                     Some ''--system_id'', Some (pref_system_id h),
                     Some ''--version'', Some v],
                  popen_env = env,
                  popen_creationflags = fl\<rparr>))"
  using assms by (simp add: try_spawn_def split: option.splits sum.splits)

text \<open>
  Claim C9. When the interpreter check exits with a code other than 0, a warning is logged
  first and the spawn is attempted all the same, against the host: the log file is opened,
  and an exception of \<open>open\<close> is raised to the caller; otherwise \<open>Popen\<close> is called with
  the interpreter, the daemon script, the port, the server, the proxy and IP preferences,
  the system id and the version, the environment built and the creation flags. An exception
  of \<open>Popen\<close> is raised to the caller; a process that \<open>Popen\<close> returns is stored as
  \<open>daemon_process\<close>, the call returns normally, a second warning is logged in place of the
  \<open>INFO\<close> message, and the report that the daemon will probably fail to run is added
  (timeout 5, type \<open>ERROR\<close>).
\<close>

theorem failed_python_check_still_spawns:
  assumes "get_port s = Inr port" and "build_env h = Inr (env, flags)"
    and "subprocess_run h [sys_executable h, ''--version''] env = Inr chk"
    and "cp_returncode chk \<noteq> 0"
  shows "logged (snd (start_daemon_server h s)) \<noteq> [] \<and>
         take (Suc (length (logged s))) (logged (snd (start_daemon_server h s))) =
           logged s @ [(WARNING, python_check_warning h chk env)] \<and>
         (\<forall>e. open_log h (log_path_of h port) = Some e \<longrightarrow>
            fst (start_daemon_server h s) = Inl e) \<and>
         (\<forall>v. open_log h (log_path_of h port) = None \<and> version_string s = Inr v \<longrightarrow>
            (\<forall>e. popen h
                   \<lparr>popen_log_path = log_path_of h port,
                    popen_args =
                      [Some (sys_executable h),
                       Some ''-u'', Some (daemon_path h),
                       Some ''--port'', Some port,
                       Some ''--server'', Some (SERVER s),
                       Some ''--proxy_which'', PREFS s ''proxy_which'',
                       Some ''--proxy_address'', PREFS s ''proxy_address'',
                       Some ''--proxy_ca_certs'', PREFS s ''proxy_ca_certs'',
                       Some ''--ip_version'', PREFS s ''ip_version'',
                       Some ''--system_id'', Some (pref_system_id h),
                       Some ''--version'', Some v],
                    popen_env = env,
                    popen_creationflags = flags\<rparr> = Inl e \<longrightarrow>
                 fst (start_daemon_server h s) = Inl e) \<and>
            (\<forall>pr. popen h
                   \<lparr>popen_log_path = log_path_of h port,
                    popen_args =
                      [Some (sys_executable h),
                       Some ''-u'', Some (daemon_path h),
                       Some ''--port'', Some port,
                       Some ''--server'', Some (SERVER s),
                       Some ''--proxy_which'', PREFS s ''proxy_which'',
                       Some ''--proxy_address'', PREFS s ''proxy_address'',
                       Some ''--proxy_ca_certs'', PREFS s ''proxy_ca_certs'',
                       Some ''--ip_version'', PREFS s ''ip_version'',
                       Some ''--system_id'', Some (pref_system_id h),
                       Some ''--version'', Some v],
                    popen_env = env,
                    popen_creationflags = flags\<rparr> = Inr pr \<longrightarrow>
                 fst (start_daemon_server h s) = Inr () \<and>
                 daemon_process (snd (start_daemon_server h s)) = Some pr \<and>
                 logged (snd (start_daemon_server h s)) =
                   logged s @
                   [(WARNING, python_check_warning h chk env),
                    (WARNING, ''Tried to start daemon server on address '' @ ''http://127.0.0.1:'' @ port
                              @ '', PID: '' @ str_int (pid pr) @ '','' @ [CHR 0x0A]
                              @ ''log file located at: '' @ log_path_of h port)] \<and>
                 reports (snd (start_daemon_server h s)) =
                   reports s @
                   [\<lparr>report_text = ''Due to unsuccessful Python check the daemon server will ''
                                    @ ''probably fail to run. Please report a bug at BlenderKit.'',
                     report_timeout = Some 5, report_type = Some ''ERROR''\<rparr>]))"
proof -
  note u = start_daemon_server_unfold [OF assms(1-3)]
  note ts = try_spawn_cases [OF assms(1), of h "log_path_of h port" env flags]
  have a: "logged (snd (start_daemon_server h s)) \<noteq> [] \<and>
         take (Suc (length (logged s))) (logged (snd (start_daemon_server h s))) =
           logged s @ [(WARNING, python_check_warning h chk env)]"
    using assms(4)
    by (cases "try_spawn h (log_path_of h port) env flags s")
       (simp_all add: u spawn_failed_eq add_report_def bk_log_def Let_def)
  have raised: "fst (start_daemon_server h s) = Inl e"
    if "try_spawn h (log_path_of h port) env flags s = Inl e" for e
    using that by (simp add: u spawn_failed_eq Let_def)
  have stored: "fst (start_daemon_server h s) = Inr () \<and>
            daemon_process (snd (start_daemon_server h s)) = Some pr \<and>
            logged (snd (start_daemon_server h s)) =
              logged s @
              [(WARNING, python_check_warning h chk env),
               (WARNING, ''Tried to start daemon server on address '' @ ''http://127.0.0.1:'' @ port
                         @ '', PID: '' @ str_int (pid pr) @ '','' @ [CHR 0x0A]
                         @ ''log file located at: '' @ log_path_of h port)] \<and>
            reports (snd (start_daemon_server h s)) =
              reports s @
              [\<lparr>report_text = ''Due to unsuccessful Python check the daemon server will ''
                               @ ''probably fail to run. Please report a bug at BlenderKit.'',
                report_timeout = Some 5, report_type = Some ''ERROR''\<rparr>]"
    if "try_spawn h (log_path_of h port) env flags s = Inr pr" for pr
    using that assms(4) by (simp add: u add_report_def bk_log_def Let_def)
  have b: "fst (start_daemon_server h s) = Inl e"
    if "open_log h (log_path_of h port) = Some e" for e
    using raised [of e] ts that by simp
  have c: "try_spawn h (log_path_of h port) env flags s =
      popen h
                   \<lparr>popen_log_path = log_path_of h port,
                    popen_args =
                      [Some (sys_executable h),
                       Some ''-u'', Some (daemon_path h),
                       Some ''--port'', Some port,
                       Some ''--server'', Some (SERVER s),
                       Some ''--proxy_which'', PREFS s ''proxy_which'',
                       Some ''--proxy_address'', PREFS s ''proxy_address'',
                       Some ''--proxy_ca_certs'', PREFS s ''proxy_ca_certs'',
                       Some ''--ip_version'', PREFS s ''ip_version'',
                       Some ''--system_id'', Some (pref_system_id h),
                       Some ''--version'', Some v],
                    popen_env = env,
                    popen_creationflags = flags\<rparr>"
    if "open_log h (log_path_of h port) = None \<and> version_string s = Inr v" for v
    using ts that by simp
  show ?thesis
    using a b c raised stored by (intro conjI allI impI) (simp_all)
qed

theorem failed_python_check_still_spawns_witness:
  "fst (start_daemon_server broken_python_host example_state) = Inr () \<and>
   daemon_process (snd (start_daemon_server broken_python_host example_state))
     = Some \<lparr>pid = 777, returncode = None\<rparr> \<and>
   map fst (logged (snd (start_daemon_server broken_python_host example_state)))
     = [WARNING, WARNING] \<and>
   reports (snd (start_daemon_server broken_python_host example_state))
     = [\<lparr>report_text = ''Due to unsuccessful Python check the daemon server will ''
                        @ ''probably fail to run. Please report a bug at BlenderKit.'',
         report_timeout = Some 5, report_type = Some ''ERROR''\<rparr>] \<and>
   fst (start_daemon_server
          (broken_python_host\<lparr>open_log := (\<lambda>path. Some (Exn PermissionError ''PermissionError''
                                                        ''[Errno 13] Permission denied''))\<rparr>)
          example_state)
     = Inl (Exn PermissionError ''PermissionError'' ''[Errno 13] Permission denied'') \<and>
   fst (start_daemon_server
          (broken_python_host\<lparr>popen := (\<lambda>c. Inl (Exn (OSError None) ''FileNotFoundError''
                                                    ''[Errno 2] No such file or directory''))\<rparr>)
          example_state)
     = Inl (Exn (OSError None) ''FileNotFoundError'' ''[Errno 2] No such file or directory'')"
proof -
  let ?perm = "Exn PermissionError ''PermissionError'' ''[Errno 13] Permission denied''"
  let ?nf = "Exn (OSError None) ''FileNotFoundError'' ''[Errno 2] No such file or directory''"
  let ?h1 = "broken_python_host\<lparr>open_log := (\<lambda>path. Some ?perm)\<rparr>"
  let ?h2 = "broken_python_host\<lparr>popen := (\<lambda>c. Inl ?nf)\<rparr>"
  let ?chk = "\<lparr>cp_returncode = 1, cp_stdout = [], cp_stderr = ''cannot start''\<rparr>"
  have nz: "cp_returncode ?chk \<noteq> 0" by simp
  have l0: "logged example_state = []" and r0: "reports example_state = []"
    by (simp_all add: example_state_def)
  obtain env fl where b: "build_env broken_python_host = Inr (env, fl)"
    by (simp add: build_env_def broken_python_host_def example_host_def)
  have c: "subprocess_run broken_python_host [sys_executable broken_python_host, ''--version''] env
       = Inr ?chk"
    by (simp add: broken_python_host_def)
  have o: "open_log broken_python_host (log_path_of broken_python_host ''80'') = None"
    by (simp add: broken_python_host_def example_host_def)
  have p: "popen broken_python_host call = Inr \<lparr>pid = 777, returncode = None\<rparr>" for call
    by (simp add: broken_python_host_def example_host_def)
  from failed_python_check_still_spawns [OF example_port b c nz] o example_version p
  have ok: "fst (start_daemon_server broken_python_host example_state) = Inr () \<and>
        daemon_process (snd (start_daemon_server broken_python_host example_state))
          = Some \<lparr>pid = 777, returncode = None\<rparr> \<and>
        (\<exists>w1 w2. logged (snd (start_daemon_server broken_python_host example_state))
           = logged example_state @ [(WARNING, w1), (WARNING, w2)]) \<and>
        reports (snd (start_daemon_server broken_python_host example_state))
          = reports example_state @
            [\<lparr>report_text = ''Due to unsuccessful Python check the daemon server will ''
                        @ ''probably fail to run. Please report a bug at BlenderKit.'',
              report_timeout = Some 5, report_type = Some ''ERROR''\<rparr>]"
    by blast
  obtain env1 fl1 where b1: "build_env ?h1 = Inr (env1, fl1)"
    by (simp add: build_env_def broken_python_host_def example_host_def)
  have c1: "subprocess_run ?h1 [sys_executable ?h1, ''--version''] env1 = Inr ?chk"
    by (simp add: broken_python_host_def)
  have o1: "open_log ?h1 (log_path_of ?h1 ''80'') = Some ?perm" by simp
  from failed_python_check_still_spawns [OF example_port b1 c1 nz] o1
  have denied: "fst (start_daemon_server ?h1 example_state) = Inl ?perm" by blast
  obtain env2 fl2 where b2: "build_env ?h2 = Inr (env2, fl2)"
    by (simp add: build_env_def broken_python_host_def example_host_def)
  have c2: "subprocess_run ?h2 [sys_executable ?h2, ''--version''] env2 = Inr ?chk"
    by (simp add: broken_python_host_def)
  have o2: "open_log ?h2 (log_path_of ?h2 ''80'') = None"
    by (simp add: broken_python_host_def example_host_def)
  have p2: "popen ?h2 call = Inl ?nf" for call by simp
  from failed_python_check_still_spawns [OF example_port b2 c2 nz] o2 example_version p2
  have missing: "fst (start_daemon_server ?h2 example_state) = Inl ?nf" by blast
  from ok denied missing show ?thesis by (auto simp: l0 r0)
qed

end
